theory Spec2Isabelle
  imports Complex_Main "HOL-Library.Multiset"
begin

section \<open>Python values, errors and string rendering\<close>

text \<open>
  The scenario service is Python. Its unbounded integers are \<open>int\<close>; its floats are
  modelled by the rationals they denote (every score in the service is a short sum of
  the constants 0.4, 0.3, 0.6 divided by a small count, and every claim below is about
  differences far above rounding). An instant of \<open>datetime\<close> is the number of
  microseconds since the epoch. A raised exception is the \<open>Inl\<close> of a sum.
\<close>

datatype py_error =
    ValueError string
  | ValidationError string
  | TypeError string
  | KeyError string
  | ZeroDivisionError
  | RuntimeError string
  | ContentSourceError string

text \<open>The values that the dictionaries typed \<open>Dict[str, Any]\<close> carry in this service.\<close>

datatype py_value =
    PyNone
  | PyBool bool
  | PyNum rat
  | PyStr string
  | PyStrList "string list"
  | PyIso int

text \<open>Python truthiness, as used by \<open>if d.get(key):\<close>.\<close>

fun truthy :: "py_value \<Rightarrow> bool" where
  "truthy PyNone = False"
| "truthy (PyBool b) = b"
| "truthy (PyNum r) = (r \<noteq> 0)"
| "truthy (PyStr s) = (s \<noteq> [])"
| "truthy (PyStrList xs) = (xs \<noteq> [])"
| "truthy (PyIso t) = True"

text \<open>\<open>d.get(key)\<close> on a dictionary kept as an association list; a missing key gives \<open>None\<close>.\<close>

definition py_get :: "(string \<times> py_value) list \<Rightarrow> string \<Rightarrow> py_value" where
  "py_get d k = (case map_of d k of None \<Rightarrow> PyNone | Some v \<Rightarrow> v)"

text \<open>\<open>str(n)\<close> for an integer, as the f-strings of the service render it.\<close>

definition digit_char :: "nat \<Rightarrow> char" where
  "digit_char d = ''0123456789'' ! d"

fun str_nat :: "nat \<Rightarrow> string" where
  "str_nat n = (if n < 10 then [digit_char n] else str_nat (n div 10) @ [digit_char (n mod 10)])"

definition str_int :: "int \<Rightarrow> string" where
  "str_int n = (if n < 0 then CHR ''-'' # str_nat (nat (- n)) else str_nat (nat n))"

section \<open>models/scenario.py\<close>

definition SCENARIO_TYPES :: "(string \<times> string) list" where
  "SCENARIO_TYPES =
     [(''security_incident'', ''Security Incident Response''),
      (''business_continuity'', ''Business Continuity''),
      (''compliance_validation'', ''Compliance Validation''),
      (''crisis_management'', ''Crisis Management''),
      (''technical_recovery'', ''Technical Recovery'')]"

definition SCENARIO_COMPLEXITY_LEVELS :: "(string \<times> int) list" where
  "SCENARIO_COMPLEXITY_LEVELS = [(''low'', 1), (''medium'', 2), (''high'', 3)]"

definition DEFAULT_DURATION_MINUTES :: int where
  "DEFAULT_DURATION_MINUTES = 60"

subsection \<open>Inject\<close>

record inject =
  inject_id :: string
  inject_title :: string
  inject_description :: string
  inject_type :: string
  sequence_number :: int
  delay_minutes :: int
  content :: "(string \<times> py_value) list"
  inject_metadata :: "(string \<times> py_value) list"

text \<open>
  The keyword dictionary that the \<open>Inject\<close> constructor receives from the content source.
  A key the dictionary lacks is \<open>None\<close> here; \<open>__init__\<close> names six of them as required
  parameters, so a call without one of those raises \<open>TypeError\<close>.
\<close>

record inject_data =
  d_id :: "string option"
  d_title :: "string option"
  d_description :: "string option"
  d_type :: "string option"
  d_sequence_number :: "int option"
  d_delay_minutes :: "int option"
  d_content :: "(string \<times> py_value) list option"
  d_metadata :: "(string \<times> py_value) list option"

definition validate_inject_type :: "string \<Rightarrow> py_error + string" where
  "validate_inject_type v =
     (if v \<notin> set [''notification'', ''action'', ''decision'', ''escalation'', ''resolution'']
      then Inl (ValidationError (''Invalid inject type: '' @ v))
      else Inr v)"

definition validate_content ::
  "(string \<times> py_value) list \<Rightarrow> py_error + (string \<times> py_value) list" where
  "validate_content v =
     (if \<not> list_all (\<lambda>field. field \<in> fst ` set v)
              [''message'', ''expected_response'', ''success_criteria'']
      then Inl (ValidationError ''Missing required content fields'')
      else Inr v)"

definition default_inject_metadata :: "(string \<times> py_value) list" where
  "default_inject_metadata = [(''created_by'', PyStr ''system''), (''version'', PyStr ''1.0.0'')]"

text \<open>
  \<open>Inject.__init__\<close>. The argument \<open>uuid\<close> is the value \<open>uuid.uuid4()\<close> would draw; it
  is used only when the dictionary has no \<open>id\<close>.
\<close>

definition Inject_init :: "string \<Rightarrow> inject_data \<Rightarrow> py_error + inject" where
  "Inject_init uuid d =
     (case (d_title d, d_description d, d_type d,
            d_sequence_number d, d_delay_minutes d, d_content d) of
        (Some t, Some ds, Some ty, Some sq, Some dl, Some c) \<Rightarrow>
          (case validate_inject_type ty of
             Inl e \<Rightarrow> Inl e
           | Inr ty' \<Rightarrow>
              (case validate_content c of
                 Inl e \<Rightarrow> Inl e
               | Inr c' \<Rightarrow>
                   Inr \<lparr> inject_id = (case d_id d of None \<Rightarrow> uuid | Some i \<Rightarrow> i),
                         inject_title = t, inject_description = ds, inject_type = ty',
                         sequence_number = sq, delay_minutes = dl, content = c',
                         inject_metadata =
                           (case d_metadata d of None \<Rightarrow> default_inject_metadata
                                             | Some m \<Rightarrow> m) \<rparr>))
      | _ \<Rightarrow> Inl (TypeError ''__init__() missing required argument''))"

subsection \<open>Scenario\<close>

text \<open>
  A control's evidence in a scenario's compliance mapping: under \<open>controls\<close> it maps a
  requirement string to the implementation record (\<open>description\<close>, \<open>evidence\<close>,
  \<open>artifacts\<close>) that the scorer reads.
\<close>

record control_data =
  cd_controls :: "(string \<times> (string \<times> py_value) list) list option"

record compliance_mapping =
  cm_controls :: "(string \<times> control_data) list option"

record org_context =
  org_fields :: "(string \<times> py_value) list"
  scenario_capabilities :: "string list option"
  max_complexity :: "int option"
  primary_framework :: "string option"

record telemetry =
  generation_time_ms :: rat
  validation_time_ms :: rat
  tel_compliance_score :: rat
  inject_count :: "nat option"
  last_inject_added :: "int option"

definition default_telemetry :: telemetry where
  "default_telemetry =
     \<lparr> generation_time_ms = 0, validation_time_ms = 0, tel_compliance_score = 0,
       inject_count = None, last_inject_added = None \<rparr>"

record scenario =
  scenario_id :: string
  title :: string
  description :: string
  scenario_type :: string
  complexity_level :: int
  duration_minutes :: int
  injects :: "inject list"
  compliance_mappings :: compliance_mapping
  organization_context :: org_context
  updated_at :: int
  metadata :: "(string \<times> py_value) list"
  scenario_telemetry :: telemetry

definition validate_scenario_type_field :: "string \<Rightarrow> py_error + string" where
  "validate_scenario_type_field v =
     (if v \<notin> fst ` set SCENARIO_TYPES
      then Inl (ValidationError (''Invalid scenario type: '' @ v))
      else Inr v)"

text \<open>\<open>Scenario.validate_complexity\<close>, the field validator run by the constructor.\<close>

definition validate_complexity :: "int \<Rightarrow> py_error + int" where
  "validate_complexity v =
     (if v \<notin> snd ` set SCENARIO_COMPLEXITY_LEVELS
      then Inl (ValidationError (''Invalid complexity level: '' @ str_int v))
      else Inr v)"

text \<open>
  \<open>Scenario.__init__\<close> as the generator calls it: identifier drawn by \<open>uuid4\<close>, creation
  instant \<open>now\<close>, no injects, default telemetry, duration defaulted when not given.
\<close>

definition Scenario_init ::
  "string \<Rightarrow> int \<Rightarrow> string \<Rightarrow> string \<Rightarrow> string \<Rightarrow> int \<Rightarrow> org_context \<Rightarrow> int option \<Rightarrow>
   compliance_mapping \<Rightarrow> (string \<times> py_value) list \<Rightarrow> py_error + scenario" where
  "Scenario_init uuid now ttl ds ty cx org dur cm md =
     (case validate_scenario_type_field ty of
        Inl e \<Rightarrow> Inl e
      | Inr ty' \<Rightarrow>
         (case validate_complexity cx of
            Inl e \<Rightarrow> Inl e
          | Inr cx' \<Rightarrow>
              Inr \<lparr> scenario_id = uuid, title = ttl, description = ds, scenario_type = ty',
                    complexity_level = cx',
                    duration_minutes = (case dur of None \<Rightarrow> DEFAULT_DURATION_MINUTES
                                                  | Some m \<Rightarrow> m),
                    injects = [], compliance_mappings = cm, organization_context = org,
                    updated_at = now, metadata = md,
                    scenario_telemetry = default_telemetry \<rparr>))"

text \<open>
  \<open>Scenario.add_inject\<close>. The method mutates the scenario and returns
  \<open>(success, message)\<close>; the model returns the scenario after the call with them. The
  two instants are the two reads of \<open>datetime.utcnow()\<close> on the success path.
  \<open>list.sort(key=...)\<close> is a stable sort, as \<open>sort_key\<close> is.
\<close>

definition add_inject ::
  "int \<Rightarrow> int \<Rightarrow> scenario \<Rightarrow> inject \<Rightarrow> scenario \<times> bool \<times> string option" where
  "add_inject now1 now2 s i =
     (if list_ex (\<lambda>existing. sequence_number existing = sequence_number i) (injects s)
      then (s, False,
            Some (''Sequence number '' @ str_int (sequence_number i) @ '' already exists''))
      else
        let total_duration = sum_list (map delay_minutes (injects s)) + delay_minutes i in
        if total_duration > duration_minutes s
        then (s, False, Some ''Total inject duration exceeds scenario duration'')
        else
          let injects' = sort_key sequence_number (injects s @ [i]) in
          (s \<lparr> injects := injects',
               updated_at := now1,
               scenario_telemetry := (scenario_telemetry s)
                  \<lparr> inject_count := Some (length injects'),
                    last_inject_added := Some now2 \<rparr> \<rparr>,
           True, None))"

text \<open>
  A scenario built through \<open>add_inject\<close> alone: the calls are made one after the other,
  each at its own two instants, and a rejected call leaves the scenario as it was.
\<close>

fun add_injects :: "scenario \<Rightarrow> (int \<times> int \<times> inject) list \<Rightarrow> scenario" where
  "add_injects s [] = s"
| "add_injects s ((now1, now2, i) # rest) = add_injects (fst (add_inject now1 now2 s i)) rest"

definition sequence_unique :: "scenario \<Rightarrow> bool" where
  "sequence_unique s = distinct (map sequence_number (injects s))"

definition sequence_sorted :: "scenario \<Rightarrow> bool" where
  "sequence_sorted s = sorted (map sequence_number (injects s))"

definition timeline_fits :: "scenario \<Rightarrow> bool" where
  "timeline_fits s = (sum_list (map delay_minutes (injects s)) \<le> duration_minutes s)"

definition inject_invariant :: "scenario \<Rightarrow> bool" where
  "inject_invariant s = (sequence_unique s \<and> sequence_sorted s \<and> timeline_fits s)"

section \<open>utils/compliance.py\<close>

record control =
  control_name :: string
  requirements :: "string list"
  severity :: string

record framework =
  framework_name :: string
  framework_version :: string
  controls :: "(string \<times> control) list"

text \<open>
  The framework table of the module: two frameworks with one critical control each. The
  functions of the module read this constant; the model hands it to them as their first
  argument.
\<close>

definition COMPLIANCE_FRAMEWORKS :: "(string \<times> framework) list" where
  "COMPLIANCE_FRAMEWORKS =
     [(''soc2'',
       \<lparr> framework_name = ''SOC 2'', framework_version = ''2017'',
         controls =
           [(''cc1'',
             \<lparr> control_name = ''CC1.0'',
               requirements =
                 [''cc1.1: Demonstrate commitment to integrity and ethical values'',
                  ''cc1.2: Exercise oversight responsibility'',
                  ''cc1.3: Establish structure, authority, and responsibility'',
                  ''cc1.4: Demonstrate commitment to competence''],
               severity = ''critical'' \<rparr>)] \<rparr>),
      (''gdpr'',
       \<lparr> framework_name = ''GDPR'', framework_version = ''2018'',
         controls =
           [(''art5'',
             \<lparr> control_name = ''Article 5'',
               requirements =
                 [''art5.1.a: Lawfulness, fairness and transparency'',
                  ''art5.1.b: Purpose limitation'',
                  ''art5.1.c: Data minimisation''],
               severity = ''critical'' \<rparr>)] \<rparr>)]"

definition COMPLIANCE_THRESHOLD :: rat where
  "COMPLIANCE_THRESHOLD = 95 / 100"

definition CONTROL_WEIGHTS :: "(string \<times> rat) list" where
  "CONTROL_WEIGHTS =
     [(''critical'', 1), (''high'', 8 / 10), (''medium'', 6 / 10), (''low'', 4 / 10)]"

datatype validation_level = Strict | Standard

text \<open>The two entries of \<open>VALIDATION_LEVELS\<close>.\<close>

fun level_threshold :: "validation_level \<Rightarrow> rat" where
  "level_threshold Strict = 95 / 100"
| "level_threshold Standard = 85 / 100"

fun require_evidence :: "validation_level \<Rightarrow> bool" where
  "require_evidence Strict = True"
| "require_evidence Standard = False"

text \<open>\<open>str.lower()\<close> on the ASCII letters, which are all that framework identifiers use.\<close>

definition lower_char :: "char \<Rightarrow> char" where
  "lower_char c =
     (case map_of (zip ''ABCDEFGHIJKLMNOPQRSTUVWXYZ'' ''abcdefghijklmnopqrstuvwxyz'') c of
        None \<Rightarrow> c | Some l \<Rightarrow> l)"

definition lower :: "string \<Rightarrow> string" where
  "lower s = map lower_char s"

text \<open>
  \<open>ComplianceFramework._validate_requirement\<close>. A requirement with no implementation
  record, or with an empty one, scores 0.
\<close>

definition validate_requirement :: "string \<Rightarrow> control_data \<Rightarrow> validation_level \<Rightarrow> rat" where
  "validate_requirement requirement implementation level =
     (case (case cd_controls implementation of
              None \<Rightarrow> None | Some cs \<Rightarrow> map_of cs requirement) of
        None \<Rightarrow> 0
      | Some implementation_data \<Rightarrow>
          if implementation_data = [] then 0
          else
            (if truthy (py_get implementation_data ''description'') then 4 / 10 else 0)
            + (if require_evidence level
               then (if truthy (py_get implementation_data ''evidence'') then 3 / 10 else 0)
                  + (if truthy (py_get implementation_data ''artifacts'') then 3 / 10 else 0)
               else 6 / 10))"

text \<open>
  \<open>ComplianceFramework.validate_control\<close>, returning \<open>(is_compliant, control_score)\<close>; of
  the findings it also collects, only the scores feed the results used below.
\<close>

definition validate_control ::
  "(string \<times> control) list \<Rightarrow> string \<Rightarrow> control_data \<Rightarrow> validation_level \<Rightarrow>
   py_error + (bool \<times> rat)" where
  "validate_control cs control_id implementation level =
     (case map_of cs control_id of
        None \<Rightarrow> Inl (ValueError (''Invalid control ID: '' @ control_id))
      | Some c \<Rightarrow>
          let total_score =
                sum_list (map (\<lambda>r. validate_requirement r implementation level)
                              (requirements c))
          in if requirements c = [] then Inl ZeroDivisionError
             else
               let control_score = total_score / of_nat (length (requirements c))
               in Inr (control_score \<ge> level_threshold level, control_score))"

record validation_results =
  vr_framework :: string
  vr_controls :: "(string \<times> bool \<times> rat) list"
  total_controls :: nat
  compliant_controls :: nat
  overall_score :: rat
  score_details :: "rat option"
  vr_is_compliant :: "bool option"
  vr_error :: "py_error option"

text \<open>
  The loop of \<open>validate_compliance_mapping\<close> over the items of the mapping's
  \<open>controls\<close>, with its accumulators: the per-control results, the running
  \<open>total_score\<close>, and the two counters of the summary. An exception raised for one
  control leaves the loop and the function.
\<close>

fun score_mapping_controls ::
  "(string \<times> control) list \<Rightarrow> validation_level \<Rightarrow> (string \<times> control_data) list \<Rightarrow>
   (string \<times> bool \<times> rat) list \<times> rat \<times> nat \<times> nat \<Rightarrow>
   py_error + ((string \<times> bool \<times> rat) list \<times> rat \<times> nat \<times> nat)" where
  "score_mapping_controls cs level [] acc = Inr acc"
| "score_mapping_controls cs level ((control_id, control_data) # rest) (res, total_score, n, m) =
     (case validate_control cs control_id control_data level of
        Inl e \<Rightarrow> Inl e
      | Inr (is_compliant, score) \<Rightarrow>
          score_mapping_controls cs level rest
            (res @ [(control_id, is_compliant, score)], total_score + score, n + 1,
             (if is_compliant then m + 1 else m)))"

definition validate_compliance_mapping ::
  "(string \<times> framework) list \<Rightarrow> compliance_mapping \<Rightarrow> string \<Rightarrow> validation_level \<Rightarrow>
   py_error + (bool \<times> validation_results)" where
  "validate_compliance_mapping fws scenario_mapping framework_id level =
     (case map_of fws framework_id of
        None \<Rightarrow> Inl (ValueError (''Unsupported compliance framework: '' @ framework_id))
      | Some fw \<Rightarrow>
          if map_of fws (lower framework_id) = None
          then Inl (ValidationError (''Unsupported compliance framework: '' @ framework_id))
          else
            (case score_mapping_controls (controls fw) level
                    (case cm_controls scenario_mapping of None \<Rightarrow> [] | Some cs \<Rightarrow> cs)
                    ([], 0, 0, 0) of
               Inl e \<Rightarrow> Inl e
             | Inr (res, total_score, n, m) \<Rightarrow>
                 let overall = (if n > 0 then total_score / of_nat n else 0)
                 in Inr (overall \<ge> level_threshold level,
                         \<lparr> vr_framework = framework_id, vr_controls = res,
                           total_controls = n, compliant_controls = m,
                           overall_score = overall, score_details = None,
                           vr_is_compliant = None, vr_error = None \<rparr>)))"

text \<open>
  The loop of \<open>calculate_compliance_score\<close> with its accumulators \<open>weighted_score\<close>
  and \<open>total_weight\<close>. (The per-category averages it also fills in do not feed the
  overall score.)
\<close>

fun weigh_controls ::
  "(string \<times> control) list \<Rightarrow> (string \<times> bool \<times> rat) list \<Rightarrow> rat \<times> rat \<Rightarrow>
   py_error + (rat \<times> rat)" where
  "weigh_controls cs [] acc = Inr acc"
| "weigh_controls cs ((control_id, is_compliant, score) # rest) (weighted_score, total_weight) =
     (case map_of cs control_id of
        None \<Rightarrow> Inl (KeyError control_id)
      | Some c \<Rightarrow>
         (case map_of CONTROL_WEIGHTS (severity c) of
            None \<Rightarrow> Inl (KeyError (severity c))
          | Some weight \<Rightarrow>
              weigh_controls cs rest (weighted_score + score * weight, total_weight + weight)))"

text \<open>\<open>calculate_compliance_score\<close>, returning the \<open>overall_score\<close> of its breakdown.\<close>

definition calculate_compliance_score ::
  "(string \<times> framework) list \<Rightarrow> validation_results \<Rightarrow> string \<Rightarrow> py_error + rat" where
  "calculate_compliance_score fws results framework_id =
     (case map_of fws framework_id of
        None \<Rightarrow> Inl (KeyError framework_id)
      | Some fw \<Rightarrow>
         (case weigh_controls (controls fw) (vr_controls results) (0, 0) of
            Inl e \<Rightarrow> Inl e
          | Inr (weighted_score, total_weight) \<Rightarrow>
              Inr (if total_weight > 0 then weighted_score / total_weight else 0)))"

text \<open>
  The overall framework score in the spec's words: the sum over the scored controls of
  control score times severity weight, divided by the sum of the severity weights. The
  weight of a control is the entry of \<open>CONTROL_WEIGHTS\<close> for its severity; the score is 0
  when no control is scored.
\<close>

definition severity_weight :: "(string \<times> control) list \<Rightarrow> string \<Rightarrow> rat" where
  "severity_weight cs control_id =
     (case map_of cs control_id of
        None \<Rightarrow> 0
      | Some c \<Rightarrow> (case map_of CONTROL_WEIGHTS (severity c) of
                    None \<Rightarrow> 0 | Some weight \<Rightarrow> weight))"

definition spec_weighted_average ::
  "(string \<times> control) list \<Rightarrow> (string \<times> bool \<times> rat) list \<Rightarrow> rat" where
  "spec_weighted_average cs scored =
     (if scored = [] then 0
      else sum_list (map (\<lambda>x. snd (snd x) * severity_weight cs (fst x)) scored)
           / sum_list (map (\<lambda>x. severity_weight cs (fst x)) scored))"

section \<open>services/scenario\_validator.py\<close>

record validation_rules =
  min_injects :: int
  max_injects :: int
  min_duration :: int
  max_duration :: int
  compliance_threshold :: rat
  ai_content_confidence :: rat
  max_complexity_level :: int

definition VALIDATION_RULES :: validation_rules where
  "VALIDATION_RULES =
     \<lparr> min_injects = 3, max_injects = 10, min_duration = 30, max_duration = 240,
       compliance_threshold = 95 / 100, ai_content_confidence = 85 / 100,
       max_complexity_level = 5 \<rparr>"

text \<open>
  The entries of a report's \<open>issues\<close> list. The source formats each as a sentence; the
  model keeps the kind of issue and the values the sentence is built from.
\<close>

datatype issue =
    InvalidScenarioTitle
  | InvalidScenarioDescription
  | MissingOrganizationContext
  | InvalidScenarioType string
  | InvalidComplexityLevel string
  | InvalidInjectCount nat
  | InvalidInjectTitle string
  | InvalidInjectDescription string
  | MissingContentFields string "string list"
  | DuplicateSequenceNumber int
  | DurationBelowMinimum int
  | DurationExceedsMaximum int
  | ComplianceBelowThreshold rat rat
  | AIConfidenceBelowThreshold rat rat
  | ValidationFailed py_error

record validation_result =
  is_valid :: bool
  compliance_score :: rat
  ai_confidence :: rat
  issues :: "issue list"
  details_injects :: "(bool \<times> bool \<times> issue list) option"
  details_compliance :: "validation_results option"

record validator =
  validator_context :: org_context
  rules :: validation_rules
  compliance_cache :: "(string \<times> bool \<times> validation_results) list"


definition validate_scenario_complexity :: "int \<Rightarrow> org_context \<Rightarrow> bool \<times> string" where
  "validate_scenario_complexity level org =
     (let max_c = (case max_complexity org of
                     None \<Rightarrow> max_complexity_level VALIDATION_RULES | Some m \<Rightarrow> m)
      in if \<not> (1 \<le> level \<and> level \<le> max_c)
         then (False, ''Complexity level '' @ str_int level @ '' outside valid range (1-''
                        @ str_int max_c @ '')'')
         else (True, ''Valid complexity level''))"






definition error_results :: "py_error \<Rightarrow> validation_results" where
  "error_results e =
     \<lparr> vr_framework = [], vr_controls = [], total_controls = 0, compliant_controls = 0,
       overall_score = 0, score_details = None, vr_is_compliant = Some False,
       vr_error = Some e \<rparr>"

text \<open>
  \<open>validate_compliance_requirements\<close>. The verdict is taken from the weighted score of
  \<open>calculate_compliance_score\<close>, which is stored under \<open>score_details\<close>; the summary's
  \<open>overall_score\<close> stays as \<open>validate_compliance_mapping\<close> computed it. Any exception
  gives the error report with score 0, which is not cached.
\<close>

definition validate_compliance_requirements ::
  "(string \<times> framework) list \<Rightarrow> validator \<Rightarrow> scenario \<Rightarrow> string option \<Rightarrow>
   (bool \<times> validation_results) \<times> validator" where
  "validate_compliance_requirements fws v s framework_id =
     (let cache_key = scenario_id s @ '':'' @
                        (case framework_id of None \<Rightarrow> ''None'' | Some f \<Rightarrow> f)
      in case map_of (compliance_cache v) cache_key of
           Some r \<Rightarrow> (r, v)
         | None \<Rightarrow>
            let dflt = (case primary_framework (validator_context v) of
                          None \<Rightarrow> ''soc2'' | Some p \<Rightarrow> p);
                fid = (case framework_id of
                         None \<Rightarrow> dflt | Some f \<Rightarrow> if f = [] then dflt else f)
            in case validate_compliance_mapping fws (compliance_mappings s) fid Strict of
                 Inl e \<Rightarrow> ((False, error_results e), v)
               | Inr (mapping_compliant, results) \<Rightarrow>
                  (case calculate_compliance_score fws results fid of
                     Inl e \<Rightarrow> ((False, error_results e), v)
                   | Inr weighted \<Rightarrow>
                       let verdict = (weighted \<ge> compliance_threshold (rules v));
                           results' = results \<lparr> score_details := Some weighted,
                                                vr_is_compliant := Some verdict \<rparr>
                       in ((verdict, results'),
                           v \<lparr> compliance_cache :=
                                 (cache_key, verdict, results') # compliance_cache v \<rparr>)))"

text \<open>\<open>sum(confidence_scores)\<close>: Python adds numbers and booleans, and raises on the rest.\<close>

fun py_sum :: "py_value list \<Rightarrow> py_error + rat" where
  "py_sum [] = Inr 0"
| "py_sum (x # xs) =
     (case py_sum xs of
        Inl e \<Rightarrow> Inl e
      | Inr t \<Rightarrow>
         (case x of
            PyNum r \<Rightarrow> Inr (r + t)
          | PyBool b \<Rightarrow> Inr (of_bool b + t)
          | _ \<Rightarrow> Inl (TypeError ''unsupported operand type(s) for +'')))"

text \<open>\<open>_validate_ai_content\<close>.\<close>

definition validate_ai_content :: "scenario \<Rightarrow> py_error + rat" where
  "validate_ai_content s =
     (if \<not> truthy (py_get (metadata s) ''ai_generated'') then Inr 1
      else
        let confidence_scores =
              (if truthy (py_get (metadata s) ''ai_description_score'')
               then [py_get (metadata s) ''ai_description_score''] else [])
              @ map (\<lambda>i. py_get (inject_metadata i) ''ai_content_score'')
                    (filter (\<lambda>i. truthy (py_get (inject_metadata i) ''ai_content_score''))
                            (injects s))
        in if confidence_scores = [] then Inr 0
           else (case py_sum confidence_scores of
                   Inl e \<Rightarrow> Inl e
                 | Inr score_sum \<Rightarrow> Inr (score_sum / of_nat (length confidence_scores))))"


section \<open>services/scenario\_generator.py\<close>

definition DEFAULT_COMPLEXITY :: int where
  "DEFAULT_COMPLEXITY = 2"

definition MAX_GENERATION_ATTEMPTS :: int where
  "MAX_GENERATION_ATTEMPTS = 3"

definition CACHE_TTL :: int where
  "CACHE_TTL = 3600"

record generator_config =
  max_attempts :: int
  cfg_compliance_threshold :: rat
  cache_ttl :: int

definition default_config :: generator_config where
  "default_config =
     \<lparr> max_attempts = MAX_GENERATION_ATTEMPTS, cfg_compliance_threshold = 95 / 100,
       cache_ttl = CACHE_TTL \<rparr>"

record cache_entry =
  ce_scenario :: scenario
  ce_validation :: validation_result
  ce_timestamp :: int

text \<open>What the generator writes to its logger.\<close>

datatype log_entry =
    RetrievedFromCache
  | FailedToAddInject "string option"
  | AttemptFailedValidation int rat
  | AttemptRaised int py_error
  | GenerationSucceeded int

text \<open>
  The generator object: its cache, its performance metrics and its log. The three counters
  are not fields of the source; they count the invocations the generator has made of the
  content source's base generation, of its inject generation, and of the validator.
\<close>

record generator =
  cache :: "string \<Rightarrow> cache_entry option"
  average_attempts :: rat
  total_generations :: nat
  gen_log :: "log_entry list"
  base_generation_calls :: nat
  inject_generation_calls :: nat
  validator_calls :: nat

text \<open>What the content source's base generation returns; an absent key is \<open>None\<close>.\<close>

record scenario_data =
  sd_title :: "string option"
  sd_description :: "string option"
  sd_compliance_mappings :: "compliance_mapping option"

text \<open>
  The collaborators of the generator. The content source and the validator are objects
  handed to the constructor; the outcome of their \<open>k\<close>-th invocation is given by a
  function of \<open>k\<close> and the arguments, so that a collaborator may answer differently from
  one call to the next. \<open>uuid4 k p\<close> is the identifier drawn for the scenario (\<open>p = 0\<close>)
  or its \<open>p\<close>-th inject record during the attempt that made base-generation call \<open>k\<close>;
  the last two fields are Python's \<open>str\<close> on a dictionary and on a list.
\<close>

record env =
  llm_generate_scenario ::
    "nat \<Rightarrow> string \<Rightarrow> org_context \<Rightarrow> string list \<Rightarrow> py_error + scenario_data"
  llm_generate_injects :: "nat \<Rightarrow> scenario_data \<Rightarrow> int \<Rightarrow> py_error + inject_data list"
  validator_validate_scenario :: "nat \<Rightarrow> scenario \<Rightarrow> py_error + (bool \<times> validation_result)"
  uuid4 :: "nat \<Rightarrow> nat \<Rightarrow> string"
  str_context :: "org_context \<Rightarrow> string"
  str_frameworks :: "string list \<Rightarrow> string"

text \<open>The places where one call of \<open>generate_scenario\<close> reads \<open>datetime.utcnow()\<close>.\<close>

datatype clock_read =
    GenerationStart
  | CacheLookup
  | ScenarioCreated int
  | GenerationTimestamp int
  | InjectUpdated int nat
  | InjectStamped int nat
  | CacheStore
  | GenerationEnd

definition generate_cache_key :: "env \<Rightarrow> string \<Rightarrow> org_context \<Rightarrow> string list \<Rightarrow> int \<Rightarrow> string" where
  "generate_cache_key e ty org fs cx =
     ty @ '':'' @ str_context e org @ '':'' @ str_frameworks e fs @ '':'' @ str_int cx"

text \<open>
  \<open>timedelta.seconds\<close> of a difference of \<open>d\<close> microseconds: a \<open>timedelta\<close> is
  normalised to days, seconds within the day and microseconds, and \<open>.seconds\<close> is the
  middle component.
\<close>

definition timedelta_seconds :: "int \<Rightarrow> int" where
  "timedelta_seconds d = (d mod 86400000000) div 1000000"

definition get_cached_scenario ::
  "generator_config \<Rightarrow> generator \<Rightarrow> string \<Rightarrow> int \<Rightarrow> (scenario \<times> validation_result) option" where
  "get_cached_scenario cfg g cache_key now =
     (case cache g cache_key of
        None \<Rightarrow> None
      | Some cached_data \<Rightarrow>
          if timedelta_seconds (now - ce_timestamp cached_data) < cache_ttl cfg
          then Some (ce_scenario cached_data, ce_validation cached_data)
          else None)"

definition cache_scenario ::
  "string \<Rightarrow> scenario \<times> validation_result \<Rightarrow> int \<Rightarrow> generator \<Rightarrow> generator" where
  "cache_scenario cache_key scenario_pair now g =
     g \<lparr> cache := (cache g)(cache_key \<mapsto>
            \<lparr> ce_scenario = fst scenario_pair, ce_validation = snd scenario_pair,
              ce_timestamp = now \<rparr>) \<rparr>"

definition update_performance_metrics :: "int \<Rightarrow> generator \<Rightarrow> generator" where
  "update_performance_metrics attempts g =
     g \<lparr> average_attempts := average_attempts g * (9 / 10) + of_int attempts * (1 / 10),
         total_generations := total_generations g + 1 \<rparr>"

text \<open>
  The loop that attaches the content source's inject records to the candidate:
  the \<open>Inject\<close> constructor, then \<open>add_inject\<close>, a warning and \<open>continue\<close> when the add
  is refused. An exception from the constructor leaves the loop; the warnings logged up to
  then stay logged.
\<close>

fun attach_injects ::
  "(nat \<Rightarrow> string) \<Rightarrow> (nat \<Rightarrow> int) \<Rightarrow> (nat \<Rightarrow> int) \<Rightarrow> nat \<Rightarrow> scenario \<Rightarrow> inject_data list \<Rightarrow>
   log_entry list \<Rightarrow> (py_error + scenario) \<times> log_entry list" where
  "attach_injects uuid t1 t2 pos s [] lg = (Inr s, lg)"
| "attach_injects uuid t1 t2 pos s (d # rest) lg =
     (case Inject_init (uuid (Suc pos)) d of
        Inl e \<Rightarrow> (Inl e, lg)
      | Inr i \<Rightarrow>
         (case add_inject (t1 pos) (t2 pos) s i of
            (s', success, error) \<Rightarrow>
              attach_injects uuid t1 t2 (Suc pos) s' rest
                (if \<not> success then lg @ [FailedToAddInject error] else lg)))"

text \<open>
  How the body of the \<open>try\<close> of one attempt ends: with an exception, or with the
  candidate and the validator's verdict and report on it.
\<close>

datatype attempt_outcome =
    Raised py_error
  | Validated scenario bool validation_result

definition generation_attempt ::
  "env \<Rightarrow> (clock_read \<Rightarrow> int) \<Rightarrow> string \<Rightarrow> org_context \<Rightarrow> string list \<Rightarrow> int \<Rightarrow>
   generator \<Rightarrow> int \<Rightarrow> attempt_outcome \<times> generator" where
  "generation_attempt e clock ty org fs complexity g attempts =
     (let k = base_generation_calls g;
          g1 = g \<lparr> base_generation_calls := Suc k \<rparr>
      in case llm_generate_scenario e k ty org fs of
           Inl err \<Rightarrow> (Raised err, g1)
         | Inr sd \<Rightarrow>
            (case sd_title sd of
               None \<Rightarrow> (Raised (KeyError ''title''), g1)
             | Some ttl \<Rightarrow>
            (case sd_description sd of
               None \<Rightarrow> (Raised (KeyError ''description''), g1)
             | Some ds \<Rightarrow>
            (case sd_compliance_mappings sd of
               None \<Rightarrow> (Raised (KeyError ''compliance_mappings''), g1)
             | Some cm \<Rightarrow>
            (case Scenario_init (uuid4 e k 0) (clock (ScenarioCreated attempts))
                    ttl ds ty complexity org None cm
                    [(''ai_generated'', PyBool True),
                     (''generation_timestamp'', PyIso (clock (GenerationTimestamp attempts))),
                     (''compliance_frameworks'', PyStrList fs)] of
               Inl err \<Rightarrow> (Raised err, g1)
             | Inr s \<Rightarrow>
                let j = inject_generation_calls g1;
                    g2 = g1 \<lparr> inject_generation_calls := Suc j \<rparr>
                in (case llm_generate_injects e j sd complexity of
                      Inl err \<Rightarrow> (Raised err, g2)
                    | Inr inject_list \<Rightarrow>
                       (case attach_injects (uuid4 e k)
                               (\<lambda>p. clock (InjectUpdated attempts p))
                               (\<lambda>p. clock (InjectStamped attempts p))
                               0 s inject_list (gen_log g2) of
                          (Inl err, lg) \<Rightarrow> (Raised err, g2 \<lparr> gen_log := lg \<rparr>)
                        | (Inr s', lg) \<Rightarrow>
                           let n = validator_calls g2;
                               g3 = g2 \<lparr> gen_log := lg, validator_calls := Suc n \<rparr>
                           in (case validator_validate_scenario e n s' of
                                 Inl err \<Rightarrow> (Raised err, g3)
                               | Inr (verdict, report) \<Rightarrow>
                                   (Validated s' verdict report, g3)))))))))"

text \<open>
  The test that ends the loop with success: the validator's verdict and the report's
  compliance score against the generator's threshold.
\<close>

definition accepted :: "generator_config \<Rightarrow> bool \<times> validation_result \<Rightarrow> bool" where
  "accepted cfg vr = (fst vr \<and> compliance_score (snd vr) \<ge> cfg_compliance_threshold cfg)"

text \<open>
  What an attempt that was not accepted leaves behind: the warning after a failed
  validation, the error message of the \<open>except\<close> branch after an exception.
\<close>

fun after_failed_attempt :: "int \<Rightarrow> attempt_outcome \<times> generator \<Rightarrow> generator" where
  "after_failed_attempt attempts (Raised err, g') =
     g' \<lparr> gen_log := gen_log g' @ [AttemptRaised (attempts + 1) err] \<rparr>"
| "after_failed_attempt attempts (Validated s verdict report, g') =
     g' \<lparr> gen_log := gen_log g' @
            [AttemptFailedValidation (attempts + 1) (compliance_score report)] \<rparr>"

fun outcome_verdict :: "attempt_outcome \<Rightarrow> (bool \<times> validation_result) option" where
  "outcome_verdict (Raised err) = None"
| "outcome_verdict (Validated s verdict report) = Some (verdict, report)"

fun outcome_candidate :: "attempt_outcome \<Rightarrow> scenario option" where
  "outcome_candidate (Raised err) = None"
| "outcome_candidate (Validated s verdict report) = Some s"

text \<open>
  The \<open>while attempts < max_attempts\<close> loop of \<open>generate_scenario\<close> and the
  \<open>RuntimeError\<close> after it.
\<close>

function generation_loop ::
  "env \<Rightarrow> (clock_read \<Rightarrow> int) \<Rightarrow> generator_config \<Rightarrow> string \<Rightarrow> org_context \<Rightarrow> string list \<Rightarrow>
   int \<Rightarrow> string \<Rightarrow> generator \<Rightarrow> int \<Rightarrow>
   (py_error + scenario \<times> validation_result) \<times> generator" where
  "generation_loop e clock cfg ty org fs complexity cache_key g attempts =
     (if attempts < max_attempts cfg
      then
        (let out = generation_attempt e clock ty org fs complexity g attempts
         in case fst out of
              Raised err \<Rightarrow>
                generation_loop e clock cfg ty org fs complexity cache_key
                  (after_failed_attempt attempts out) (attempts + 1)
            | Validated s verdict report \<Rightarrow>
                if accepted cfg (verdict, report)
                then
                  (Inr (s, report),
                   (update_performance_metrics (attempts + 1)
                      (cache_scenario cache_key (s, report) (clock CacheStore) (snd out)))
                     \<lparr> gen_log := gen_log (snd out) @ [GenerationSucceeded (attempts + 1)] \<rparr>)
                else
                  generation_loop e clock cfg ty org fs complexity cache_key
                    (after_failed_attempt attempts out) (attempts + 1))
      else
        (Inl (RuntimeError (''Failed to generate valid scenario after ''
                @ str_int (max_attempts cfg) @ '' attempts'')), g))"
  by pat_completeness auto
termination
  by (relation "measure (\<lambda>(e, clock, cfg, ty, org, fs, complexity, cache_key, g, attempts).
                   nat (max_attempts cfg - attempts))") auto

text \<open>\<open>complexity_level or DEFAULT_COMPLEXITY\<close>: \<open>None\<close> and 0 are falsy.\<close>

definition effective_complexity :: "int option \<Rightarrow> int" where
  "effective_complexity requested =
     (case requested of
        None \<Rightarrow> DEFAULT_COMPLEXITY
      | Some c \<Rightarrow> if c = 0 then DEFAULT_COMPLEXITY else c)"

text \<open>\<open>ScenarioGenerator.generate_scenario\<close>.\<close>

definition generate_scenario ::
  "env \<Rightarrow> (clock_read \<Rightarrow> int) \<Rightarrow> generator_config \<Rightarrow> generator \<Rightarrow> string \<Rightarrow> org_context \<Rightarrow>
   string list \<Rightarrow> int option \<Rightarrow> (py_error + scenario \<times> validation_result) \<times> generator" where
  "generate_scenario e clock cfg g ty org fs requested =
     (if ty \<notin> fst ` set SCENARIO_TYPES
      then (Inl (ValueError (''Invalid scenario type: '' @ ty)), g)
      else
        let complexity = effective_complexity requested
        in if \<not> (1 \<le> complexity \<and> complexity \<le> 5)
           then (Inl (ValueError (''Invalid complexity level: '' @ str_int complexity)), g)
           else
             let cache_key = generate_cache_key e ty org fs complexity
             in case get_cached_scenario cfg g cache_key (clock CacheLookup) of
                  Some cached \<Rightarrow> (Inr cached, g \<lparr> gen_log := gen_log g @ [RetrievedFromCache] \<rparr>)
                | None \<Rightarrow>
                    generation_loop e clock cfg ty org fs complexity cache_key g 0)"

section \<open>Concrete inputs\<close>

text \<open>
  The inputs at which the theorems below are instantiated: an inject and the record it
  is built from, an organization, a scenario, a validator, a fresh generator, and
  collaborators that answer every call, the validator accepting the calls that
  \<open>accept\<close> selects.
\<close>

definition example_content :: "(string \<times> py_value) list" where
  "example_content =
     [(''message'', PyStr ''Ransomware detected''),
      (''expected_response'', PyStr ''Initiate IR plan''),
      (''success_criteria'', PyStr ''Plan initiated within 5 minutes'')]"

definition example_inject :: "int \<Rightarrow> int \<Rightarrow> (string \<times> py_value) list \<Rightarrow> inject" where
  "example_inject sq dl md =
     \<lparr> inject_id = ''inject'', inject_title = ''Initial Detection'',
       inject_description = ''Detection of ransomware indicators'',
       inject_type = ''notification'', sequence_number = sq, delay_minutes = dl,
       content = example_content, inject_metadata = md \<rparr>"

definition example_record :: "int \<Rightarrow> int \<Rightarrow> (string \<times> py_value) list \<Rightarrow> inject_data" where
  "example_record sq dl c =
     \<lparr> d_id = None, d_title = Some ''Initial Detection'',
       d_description = Some ''Detection of ransomware indicators'',
       d_type = Some ''notification'', d_sequence_number = Some sq,
       d_delay_minutes = Some dl, d_content = Some c, d_metadata = None \<rparr>"

definition example_context :: org_context where
  "example_context =
     \<lparr> org_fields = [(''industry'', PyStr ''technology''), (''size'', PyStr ''enterprise''),
                     (''region'', PyStr ''us-west''),
                     (''compliance_frameworks'', PyStrList [''soc2''])],
       scenario_capabilities = Some [''security_incident''],
       max_complexity = None, primary_framework = Some ''soc2'' \<rparr>"

definition example_scenario ::
  "int \<Rightarrow> inject list \<Rightarrow> compliance_mapping \<Rightarrow> (string \<times> py_value) list \<Rightarrow> scenario" where
  "example_scenario dur injs cm md =
     \<lparr> scenario_id = ''scenario'', title = ''Ransomware Incident Response'',
       description = ''Enterprise-wide ransomware incident response exercise'',
       scenario_type = ''security_incident'', complexity_level = 2,
       duration_minutes = dur, injects = injs, compliance_mappings = cm,
       organization_context = example_context, updated_at = 0, metadata = md,
       scenario_telemetry = default_telemetry \<rparr>"

definition example_validator :: validator where
  "example_validator =
     \<lparr> validator_context = example_context, rules = VALIDATION_RULES,
       compliance_cache = [] \<rparr>"

text \<open>
  A mapping that evidences the first requirement of the SOC 2 control \<open>cc1\<close> in full and
  its other three requirements not at all, and the results of scoring it.
\<close>

definition one_requirement_mapping :: compliance_mapping where
  "one_requirement_mapping =
     \<lparr> cm_controls = Some
         [(''cc1'', \<lparr> cd_controls = Some
                       [(''cc1.1: Demonstrate commitment to integrity and ethical values'',
                         [(''description'', PyStr ''Code of conduct''),
                          (''evidence'', PyStr ''Signed policy''),
                          (''artifacts'', PyStr ''policy.pdf'')])] \<rparr>)] \<rparr>"


definition unknown_control_mapping :: compliance_mapping where
  "unknown_control_mapping =
     \<lparr> cm_controls = Some [(''cc1'', \<lparr> cd_controls = None \<rparr>),
                          (''cc9'', \<lparr> cd_controls = None \<rparr>)] \<rparr>"

definition empty_generator :: generator where
  "empty_generator =
     \<lparr> cache = (\<lambda>k. None), average_attempts = 0, total_generations = 0, gen_log = [],
       base_generation_calls = 0, inject_generation_calls = 0, validator_calls = 0 \<rparr>"

definition example_report :: "bool \<Rightarrow> rat \<Rightarrow> validation_result" where
  "example_report ok score =
     \<lparr> is_valid = ok, compliance_score = score, ai_confidence = 9 / 10, issues = [],
       details_injects = None, details_compliance = None \<rparr>"

definition example_data :: scenario_data where
  "example_data =
     \<lparr> sd_title = Some ''Ransomware Incident Response'',
       sd_description = Some ''Enterprise-wide ransomware incident response exercise'',
       sd_compliance_mappings = Some \<lparr> cm_controls = None \<rparr> \<rparr>"

definition mock_env :: "(nat \<Rightarrow> bool) \<Rightarrow> inject_data list \<Rightarrow> env" where
  "mock_env accept recs =
     \<lparr> llm_generate_scenario = (\<lambda>k ty org fs. Inr example_data),
       llm_generate_injects = (\<lambda>j sd cx. Inr recs),
       validator_validate_scenario =
         (\<lambda>n s. if accept n then Inr (True, example_report True (96 / 100))
                 else Inr (False, example_report False (85 / 100))),
       uuid4 = (\<lambda>k p. if p = 0 then ''scenario'' else ''inject''),
       str_context = (\<lambda>org. ''org''),
       str_frameworks = (\<lambda>fs. ''frameworks'') \<rparr>"

text \<open>
  Validators that accept from their \<open>k\<close>-th invocation on (counted from 0), or never,
  and a clock that stands still.
\<close>

definition accept_from :: "nat \<Rightarrow> nat \<Rightarrow> bool" where
  "accept_from k n = (k \<le> n)"

definition never_accept :: "nat \<Rightarrow> bool" where
  "never_accept n = False"

definition fixed_clock :: "int \<Rightarrow> clock_read \<Rightarrow> int" where
  "fixed_clock t r = t"

text \<open>
  The candidate that one attempt builds from \<open>example_data\<close> at instant 0 for the
  framework list \<open>['soc2']\<close>, before any inject is attached.
\<close>

definition example_generated :: scenario where
  "example_generated =
     example_scenario 60 [] \<lparr> cm_controls = None \<rparr>
       [(''ai_generated'', PyBool True), (''generation_timestamp'', PyIso 0),
        (''compliance_frameworks'', PyStrList [''soc2''])]"

text \<open>
  Three inject records of which \<open>add_inject\<close> takes the first and refuses the other
  two, one for its sequence number and one for its delay; and a record whose content
  lacks the required fields.
\<close>

definition example_records :: "inject_data list" where
  "example_records =
     [example_record 1 10 example_content, example_record 1 20 example_content,
      example_record 2 100 example_content]"

definition malformed_records :: "inject_data list" where
  "malformed_records = [example_record 1 10 []]"

text \<open>Two inject records of which the second lacks the required content fields.\<close>

definition mixed_records :: "inject_data list" where
  "mixed_records = [example_record 1 10 example_content, example_record 2 10 []]"

text \<open>The warning that the generator logs when \<open>add_inject\<close> refuses an inject.\<close>

fun is_add_failure :: "log_entry \<Rightarrow> bool" where
  "is_add_failure (FailedToAddInject m) = True"
| "is_add_failure other = False"

text \<open>A record that the \<open>Inject\<close> constructor accepts, whatever identifier is drawn.\<close>

definition inject_record_ok :: "inject_data \<Rightarrow> bool" where
  "inject_record_ok d = (case Inject_init [] d of Inl e \<Rightarrow> False | Inr i \<Rightarrow> True)"

section \<open>Properties\<close>

declare str_nat.simps [simp del]
declare generation_loop.simps [simp del]

lemma str_int_digit: "0 \<le> n \<Longrightarrow> n < 10 \<Longrightarrow> str_int n = [digit_char (nat n)]"
  by (simp add: str_int_def str_nat.simps)

lemma str_int_1: "str_int 1 = ''1''"
  by (simp add: str_int_digit digit_char_def)

lemma str_int_3: "str_int 3 = ''3''"
  by (simp add: str_int_digit digit_char_def)

lemma str_int_4: "str_int 4 = ''4''"
  by (simp add: str_int_digit digit_char_def)

lemma str_int_5: "str_int 5 = ''5''"
  by (simp add: str_int_digit digit_char_def)

subsection \<open>Duplicate sequence numbers\<close>

text \<open>
  Claim C7. Calling \<open>add_inject\<close> with an inject whose sequence number is already in the
  scenario returns \<open>(False, "Sequence number <n> already exists")\<close> and leaves the
  scenario, with its inject list, its duration and its telemetry, as it was; for the
  sequence number 1 the message is \<open>"Sequence number 1 already exists"\<close>.
\<close>

theorem add_inject_duplicate_sequence:
  assumes "list_ex (\<lambda>existing. sequence_number existing = sequence_number i) (injects s)"
  shows "add_inject now1 now2 s i =
           (s, False,
            Some (''Sequence number '' @ str_int (sequence_number i) @ '' already exists''))
         \<and> (sequence_number i = 1 \<longrightarrow>
              snd (snd (add_inject now1 now2 s i)) = Some ''Sequence number 1 already exists'')"
  using assms by (auto simp add: add_inject_def str_int_1)

theorem add_inject_duplicate_sequence_witness:
  "list_ex (\<lambda>existing. sequence_number existing = sequence_number (example_inject 1 20 []))
     (injects (example_scenario 60 [example_inject 1 10 []] \<lparr> cm_controls = None \<rparr> []))
   \<and> add_inject 5 6 (example_scenario 60 [example_inject 1 10 []] \<lparr> cm_controls = None \<rparr> [])
        (example_inject 1 20 [])
      = (example_scenario 60 [example_inject 1 10 []] \<lparr> cm_controls = None \<rparr> [], False,
         Some ''Sequence number 1 already exists'')"
  using add_inject_duplicate_sequence
          [of "example_inject 1 20 []"
              "example_scenario 60 [example_inject 1 10 []] \<lparr> cm_controls = None \<rparr> []" 5 6]
  by (simp add: example_inject_def example_scenario_def str_int_1)

subsection \<open>Complexity levels\<close>

text \<open>
  Claim C4 says that every complexity level from 1 to 5 can be given to a scenario. The
  constructor's validator accepts only the values of \<open>SCENARIO_COMPLEXITY_LEVELS\<close>, which
  are 1, 2 and 3: levels 4 and 5 raise in the constructor, although the validator's
  complexity check against the default maximum of 5 passes them.
\<close>

theorem constructor_rejects_complexity_four_and_five:
  "validate_complexity 4 = Inl (ValidationError ''Invalid complexity level: 4'')
   \<and> validate_complexity 5 = Inl (ValidationError ''Invalid complexity level: 5'')
   \<and> validate_scenario_complexity 4 example_context = (True, ''Valid complexity level'')
   \<and> validate_scenario_complexity 5 example_context = (True, ''Valid complexity level'')
   \<and> validate_complexity 3 = Inr 3"
  by (simp add: validate_complexity_def SCENARIO_COMPLEXITY_LEVELS_def str_int_4 str_int_5
        validate_scenario_complexity_def example_context_def VALIDATION_RULES_def)

subsection \<open>Cache expiry\<close>

text \<open>
  Claim C6 says that a lookup at least the TTL after insertion finds the entry expired,
  also after more than a day. The lookup compares \<open>timedelta.seconds\<close>, which leaves the
  days out: an entry inserted at instant 0 is served again one day and ten seconds later
  under the default TTL of 3600 seconds.
\<close>

theorem cache_entry_served_after_a_day:
  "get_cached_scenario default_config (cache_scenario k (s, r) 0 empty_generator) k
     ((86400 + 10) * 1000000) = Some (s, r)"
  by (simp add: get_cached_scenario_def cache_scenario_def default_config_def CACHE_TTL_def
        timedelta_seconds_def)

lemma cache_entry_expired_at_ttl:
  "get_cached_scenario default_config (cache_scenario k (s, r) 0 empty_generator) k
     (3600 * 1000000) = None"
  by (simp add: get_cached_scenario_def cache_scenario_def default_config_def CACHE_TTL_def
        timedelta_seconds_def)

subsection \<open>AI confidence\<close>

text \<open>
  Claim C8 says that the confidence is the mean of the scenario-level score and of every
  inject's score, leaving out only injects that lack one. The test is on truthiness, so a
  score that is present and equal to 0 is left out as well: with a scenario-level score
  of 1 and one inject scored 0 the function returns 1, where the mean is 1/2.
\<close>

theorem ai_confidence_ignores_zero_score:
  "validate_ai_content
     (example_scenario 60 [example_inject 1 10 [(''ai_content_score'', PyNum 0)]]
        \<lparr> cm_controls = None \<rparr>
        [(''ai_generated'', PyBool True), (''ai_description_score'', PyNum 1)]) = Inr 1"
  by (simp add: validate_ai_content_def example_scenario_def example_inject_def py_get_def)

subsection \<open>The reported compliance score\<close>




text \<open>
  The spec's formula at its own example: a critical control scored 1 and a low control
  scored 0.
\<close>

lemma spec_weighted_average_example:
  "spec_weighted_average
     [(''c1'', \<lparr> control_name = ''C1'', requirements = [], severity = ''critical'' \<rparr>),
      (''c2'', \<lparr> control_name = ''C2'', requirements = [], severity = ''low'' \<rparr>)]
     [(''c1'', True, 1), (''c2'', False, 0)] = 5 / 7"
  by (simp add: spec_weighted_average_def severity_weight_def CONTROL_WEIGHTS_def)






subsection \<open>The inject invariant\<close>

lemma distinct_map_sort_key:
  "distinct (map f (sort_key f xs)) = distinct (map f xs)"
  by (simp add: distinct_map)

lemma sum_list_map_sort_key:
  "sum_list (map g (sort_key f xs)) = sum_list (map (g :: 'a \<Rightarrow> int) xs)"
proof -
  have "mset (map g (sort_key f xs)) = mset (map g xs)" by simp
  then show ?thesis by (metis sum_mset_sum_list)
qed

lemma add_inject_success:
  assumes "add_inject now1 now2 s i = (s', True, msg)"
  shows "injects s' = sort_key sequence_number (injects s @ [i])"
    and "duration_minutes s' = duration_minutes s"
    and "\<forall>e\<in>set (injects s). sequence_number e \<noteq> sequence_number i"
    and "sum_list (map delay_minutes (injects s)) + delay_minutes i \<le> duration_minutes s"
  using assms
  by (auto simp add: add_inject_def Let_def list_ex_iff split: if_splits)

lemma add_inject_preserves_invariant:
  assumes "inject_invariant s" and "add_inject now1 now2 s i = (s', True, msg)"
  shows "inject_invariant s'"
proof -
  note f = add_inject_success [OF assms(2)]
  from assms(1) have d: "distinct (map sequence_number (injects s))"
    by (simp add: inject_invariant_def sequence_unique_def)
  from f(3) have n: "sequence_number i \<notin> sequence_number ` set (injects s)" by force
  show ?thesis
    using d n f(4)
    by (simp add: inject_invariant_def sequence_unique_def sequence_sorted_def
          timeline_fits_def f(1) f(2) distinct_map_sort_key sum_list_map_sort_key
          sorted_sort_key)
qed

subsection \<open>Which controls are scored\<close>

text \<open>
  Claim C10 says that a control present in the mapping but absent from the framework is
  not scored and does not make the scoring of the other controls fail. In the shipped
  SOC 2 table, a mapping with the controls \<open>cc1\<close> and \<open>cc9\<close> makes
  \<open>validate_compliance_mapping\<close> raise \<open>ValueError\<close> for \<open>cc9\<close>: no control is scored, and
  the validator reports the error with a score of 0.
\<close>

theorem unknown_control_aborts_scoring:
  "validate_compliance_mapping COMPLIANCE_FRAMEWORKS unknown_control_mapping ''soc2'' Strict
     = Inl (ValueError ''Invalid control ID: cc9'')
   \<and> fst (validate_compliance_requirements COMPLIANCE_FRAMEWORKS example_validator
            (example_scenario 60 [] unknown_control_mapping []) (Some ''soc2''))
     = (False, error_results (ValueError ''Invalid control ID: cc9''))"
  by (simp add: validate_compliance_mapping_def COMPLIANCE_FRAMEWORKS_def
        unknown_control_mapping_def lower_def lower_char_def validate_control_def
        validate_requirement_def validate_compliance_requirements_def example_validator_def
        example_scenario_def example_context_def Let_def)

lemma validate_control_known:
  "map_of cs cid = Some c \<Longrightarrow> requirements c \<noteq> [] \<Longrightarrow>
   \<exists>ok sc. validate_control cs cid cd level = Inr (ok, sc)"
  by (simp add: validate_control_def Let_def)

lemma validate_control_unknown:
  "map_of cs cid = None \<Longrightarrow>
   validate_control cs cid cd level = Inl (ValueError (''Invalid control ID: '' @ cid))"
  by (simp add: validate_control_def)

lemma score_mapping_controls_known:
  assumes "\<forall>x\<in>set m. \<exists>ok sc. validate_control cs (fst x) (snd x) level = Inr (ok, sc)"
  shows "\<exists>res'. score_mapping_controls cs level m (res, t, n, k) =
           Inr (res @ res', t + sum_list (map (snd \<circ> snd) res'), n + length m,
                k + length (filter (fst \<circ> snd) res'))
         \<and> list_all2 (\<lambda>x y. fst y = fst x \<and>
                validate_control cs (fst x) (snd x) level = Inr (snd y)) m res'"
  using assms
proof (induction m arbitrary: res t n k)
  case Nil
  then show ?case by simp
next
  case (Cons x m)
  obtain cid cd where x: "x = (cid, cd)" by (cases x)
  from Cons.prems obtain ok sc where v: "validate_control cs cid cd level = Inr (ok, sc)"
    by (auto simp add: x)
  from Cons.prems
  have "\<forall>x\<in>set m. \<exists>ok sc. validate_control cs (fst x) (snd x) level = Inr (ok, sc)"
    by simp
  from Cons.IH [OF this, of "res @ [(cid, ok, sc)]" "t + sc" "n + 1"
                  "if ok then k + 1 else k"]
  obtain res' where
    r: "score_mapping_controls cs level m
          (res @ [(cid, ok, sc)], t + sc, n + 1, if ok then k + 1 else k) =
        Inr ((res @ [(cid, ok, sc)]) @ res', t + sc + sum_list (map (snd \<circ> snd) res'),
             n + 1 + length m, (if ok then k + 1 else k) + length (filter (fst \<circ> snd) res'))"
    and l: "list_all2 (\<lambda>x y. fst y = fst x \<and>
                validate_control cs (fst x) (snd x) level = Inr (snd y)) m res'"
    by blast
  show ?case
  proof (rule exI [of _ "(cid, ok, sc) # res'"])
    show "score_mapping_controls cs level (x # m) (res, t, n, k) =
            Inr (res @ (cid, ok, sc) # res',
                 t + sum_list (map (snd \<circ> snd) ((cid, ok, sc) # res')),
                 n + length (x # m),
                 k + length (filter (fst \<circ> snd) ((cid, ok, sc) # res')))
          \<and> list_all2 (\<lambda>x y. fst y = fst x \<and>
                validate_control cs (fst x) (snd x) level = Inr (snd y)) (x # m)
               ((cid, ok, sc) # res')"
      using r l v by (simp add: x ac_simps)
  qed
qed

lemma score_mapping_controls_unknown:
  assumes "\<forall>c\<in>snd ` set cs. requirements c \<noteq> []"
    and "\<not> fst ` set m \<subseteq> fst ` set cs"
  shows "\<exists>cid\<in>fst ` set m. cid \<notin> fst ` set cs \<and>
           score_mapping_controls cs level m (res, t, n, k)
             = Inl (ValueError (''Invalid control ID: '' @ cid))"
  using assms(2)
proof (induction m arbitrary: res t n k)
  case Nil
  then show ?case by simp
next
  case (Cons x m)
  obtain cid cd where x: "x = (cid, cd)" by (cases x)
  show ?case
  proof (cases "map_of cs cid")
    case None
    then have "cid \<notin> fst ` set cs" by (simp add: map_of_eq_None_iff)
    moreover have "score_mapping_controls cs level (x # m) (res, t, n, k)
        = Inl (ValueError (''Invalid control ID: '' @ cid))"
      by (simp add: x validate_control_unknown [OF None])
    ultimately show ?thesis by (auto simp add: x)
  next
    case (Some c)
    then have "(cid, c) \<in> set cs" by (rule map_of_SomeD)
    then have c: "c \<in> snd ` set cs" and i: "cid \<in> fst ` set cs" by force+
    from c assms(1) have "requirements c \<noteq> []" by blast
    from validate_control_known [OF Some this, of cd level]
    obtain ok sc where v: "validate_control cs cid cd level = Inr (ok, sc)" by blast
    from Cons.prems i have "\<not> fst ` set m \<subseteq> fst ` set cs" by (auto simp add: x)
    from Cons.IH [OF this, of "res @ [(cid, ok, sc)]" "t + sc" "n + 1"
                    "if ok then k + 1 else k"]
    show ?thesis by (auto simp add: x v)
  qed
qed

text \<open>
  Claim C10, as amended. For a framework whose controls each have a requirement, when
  every control of the mapping is a control of the framework, scoring evaluates exactly
  the controls of the mapping, in their order, each with the result of
  \<open>validate_control\<close>: the number of scored controls is the size of the mapping and the
  overall score is the mean over them, so a framework control absent from the mapping
  counts toward neither numerator nor denominator. When a control of the mapping is
  absent from the framework, scoring raises \<open>ValueError\<close> naming such a control.
\<close>

theorem mapping_controls_scored:
  assumes "map_of fws fid = Some fw" and "map_of fws (lower fid) \<noteq> None"
    and "\<forall>c\<in>snd ` set (controls fw). requirements c \<noteq> []"
    and "cm_controls mapping = Some m"
  shows "(fst ` set m \<subseteq> fst ` set (controls fw) \<longrightarrow>
           (\<exists>ok r. validate_compliance_mapping fws mapping fid level = Inr (ok, r)
              \<and> total_controls r = length m
              \<and> list_all2 (\<lambda>x y. fst y = fst x \<and>
                    validate_control (controls fw) (fst x) (snd x) level = Inr (snd y))
                  m (vr_controls r)
              \<and> overall_score r =
                  (if m = [] then 0
                   else sum_list (map (snd \<circ> snd) (vr_controls r)) / of_nat (length m))))
       \<and> (\<not> fst ` set m \<subseteq> fst ` set (controls fw) \<longrightarrow>
           (\<exists>cid\<in>fst ` set m. cid \<notin> fst ` set (controls fw) \<and>
              validate_compliance_mapping fws mapping fid level
                = Inl (ValueError (''Invalid control ID: '' @ cid))))"
proof (intro conjI impI)
  assume sub: "fst ` set m \<subseteq> fst ` set (controls fw)"
  have "\<forall>x\<in>set m. \<exists>ok sc. validate_control (controls fw) (fst x) (snd x) level = Inr (ok, sc)"
  proof
    fix x assume "x \<in> set m"
    with sub have "fst x \<in> fst ` set (controls fw)" by auto
    then obtain c where s: "map_of (controls fw) (fst x) = Some c"
      by (metis map_of_eq_None_iff not_Some_eq)
    then have "(fst x, c) \<in> set (controls fw)" by (rule map_of_SomeD)
    then have "c \<in> snd ` set (controls fw)" by force
    with assms(3) have "requirements c \<noteq> []" by blast
    from validate_control_known [OF s this]
    show "\<exists>ok sc. validate_control (controls fw) (fst x) (snd x) level = Inr (ok, sc)" .
  qed
  from score_mapping_controls_known [OF this, of "[]" 0 0 0]
  obtain res' where
    r: "score_mapping_controls (controls fw) level m ([], 0, 0, 0) =
          Inr (res', sum_list (map (snd \<circ> snd) res'), length m,
               length (filter (fst \<circ> snd) res'))"
    and l: "list_all2 (\<lambda>x y. fst y = fst x \<and>
                validate_control (controls fw) (fst x) (snd x) level = Inr (snd y)) m res'"
    by auto
  show "\<exists>ok r. validate_compliance_mapping fws mapping fid level = Inr (ok, r)
              \<and> total_controls r = length m
              \<and> list_all2 (\<lambda>x y. fst y = fst x \<and>
                    validate_control (controls fw) (fst x) (snd x) level = Inr (snd y))
                  m (vr_controls r)
              \<and> overall_score r =
                  (if m = [] then 0
                   else sum_list (map (snd \<circ> snd) (vr_controls r)) / of_nat (length m))"
    using assms(1,2,4) r l
    by (auto simp add: validate_compliance_mapping_def Let_def)
next
  assume "\<not> fst ` set m \<subseteq> fst ` set (controls fw)"
  from score_mapping_controls_unknown [OF assms(3) this, of level "[]" 0 0 0]
  show "\<exists>cid\<in>fst ` set m. cid \<notin> fst ` set (controls fw) \<and>
              validate_compliance_mapping fws mapping fid level
                = Inl (ValueError (''Invalid control ID: '' @ cid))"
    using assms(1,2,4)
    by (auto simp add: validate_compliance_mapping_def)
qed

theorem mapping_controls_scored_witness:
  "map_of COMPLIANCE_FRAMEWORKS ''soc2'' = Some (snd (hd COMPLIANCE_FRAMEWORKS))
   \<and> map_of COMPLIANCE_FRAMEWORKS (lower ''soc2'') \<noteq> None
   \<and> list_all (\<lambda>c. requirements c \<noteq> []) (map snd (controls (snd (hd COMPLIANCE_FRAMEWORKS))))
   \<and> cm_controls one_requirement_mapping \<noteq> None
   \<and> map_sum id (total_controls \<circ> snd)
        (validate_compliance_mapping COMPLIANCE_FRAMEWORKS one_requirement_mapping ''soc2''
           Strict)
      = Inr 1
   \<and> map_sum id (map fst \<circ> vr_controls \<circ> snd)
        (validate_compliance_mapping COMPLIANCE_FRAMEWORKS one_requirement_mapping ''soc2''
           Strict)
      = Inr [''cc1'']"
  using mapping_controls_scored
          [of COMPLIANCE_FRAMEWORKS "''soc2''" "snd (hd COMPLIANCE_FRAMEWORKS)"
              one_requirement_mapping "the (cm_controls one_requirement_mapping)" Strict]
  by (simp add: COMPLIANCE_FRAMEWORKS_def one_requirement_mapping_def lower_def lower_char_def
        validate_compliance_mapping_def validate_control_def validate_requirement_def
        py_get_def Let_def)

subsection \<open>The steps of the retry loop\<close>

lemma attempt_base_calls:
  "base_generation_calls (snd (generation_attempt e clock ty org fs cx g a))
     = Suc (base_generation_calls g)"
  by (simp add: generation_attempt_def Let_def split: sum.splits option.splits prod.splits)

lemma attempt_validated:
  "fst (generation_attempt e clock ty org fs cx g a) = Validated s v r \<Longrightarrow>
   \<exists>n. validator_validate_scenario e n s = Inr (v, r)"
  by (auto simp add: generation_attempt_def Let_def
        split: sum.splits option.splits prod.splits)

lemma after_failed_base_calls:
  "base_generation_calls (after_failed_attempt a out) = base_generation_calls (snd out)"
  by (cases "(a, out)" rule: after_failed_attempt.cases) simp_all

lemma loop_step_raised:
  assumes "a < max_attempts cfg"
    and "fst (generation_attempt e clock ty org fs cx g a) = Raised err"
  shows "generation_loop e clock cfg ty org fs cx key g a
     = generation_loop e clock cfg ty org fs cx key
         (after_failed_attempt a (generation_attempt e clock ty org fs cx g a)) (a + 1)"
  using assms by (subst generation_loop.simps) (simp add: Let_def)

lemma loop_step_rejected:
  assumes "a < max_attempts cfg"
    and "fst (generation_attempt e clock ty org fs cx g a) = Validated s v r"
    and "\<not> accepted cfg (v, r)"
  shows "generation_loop e clock cfg ty org fs cx key g a
     = generation_loop e clock cfg ty org fs cx key
         (after_failed_attempt a (generation_attempt e clock ty org fs cx g a)) (a + 1)"
  using assms by (subst generation_loop.simps) (simp add: Let_def)

lemma loop_step_accepted:
  assumes "a < max_attempts cfg"
    and "fst (generation_attempt e clock ty org fs cx g a) = Validated s v r"
    and "accepted cfg (v, r)"
  shows "generation_loop e clock cfg ty org fs cx key g a
     = (Inr (s, r),
        (update_performance_metrics (a + 1)
           (cache_scenario key (s, r) (clock CacheStore)
              (snd (generation_attempt e clock ty org fs cx g a))))
          \<lparr> gen_log := gen_log (snd (generation_attempt e clock ty org fs cx g a))
                        @ [GenerationSucceeded (a + 1)] \<rparr>)"
  using assms by (subst generation_loop.simps) (simp add: Let_def)

lemma loop_end:
  assumes "\<not> a < max_attempts cfg"
  shows "generation_loop e clock cfg ty org fs cx key g a
     = (Inl (RuntimeError (''Failed to generate valid scenario after ''
                @ str_int (max_attempts cfg) @ '' attempts'')), g)"
  using assms by (subst generation_loop.simps) simp

subsection \<open>Injects that cannot be added\<close>

lemma inject_record_ok_init:
  "inject_record_ok d \<Longrightarrow> \<exists>i. Inject_init u d = Inr i"
  by (auto simp add: inject_record_ok_def Inject_init_def
        split: option.splits sum.splits prod.splits)

lemma add_inject_length:
  "add_inject n1 n2 s i = (s', ok, err) \<Longrightarrow>
     (ok \<longrightarrow> length (injects s') = Suc (length (injects s))) \<and> (\<not> ok \<longrightarrow> s' = s)"
  by (auto simp add: add_inject_def Let_def split: if_splits)

lemma attach_injects_well_formed:
  "list_all inject_record_ok recs \<Longrightarrow>
   \<exists>s' lg'. attach_injects uuid t1 t2 pos s recs lg = (Inr s', lg @ lg') \<and>
     length (injects s') + length lg' = length (injects s) + length recs \<and>
     list_all is_add_failure lg'"
proof (induction recs arbitrary: pos s lg)
  case Nil
  then show ?case by simp
next
  case (Cons d recs)
  from Cons.prems have d: "inject_record_ok d" and rest: "list_all inject_record_ok recs"
    by simp_all
  from inject_record_ok_init [OF d] obtain i where i: "Inject_init (uuid (Suc pos)) d = Inr i"
    by blast
  obtain s1 ok err where a: "add_inject (t1 pos) (t2 pos) s i = (s1, ok, err)"
    by (cases "add_inject (t1 pos) (t2 pos) s i") auto
  note len = add_inject_length [OF a]
  show ?case
  proof (cases ok)
    case True
    from Cons.IH [OF rest, of "Suc pos" s1 lg]
    obtain s' lg' where
      "attach_injects uuid t1 t2 (Suc pos) s1 recs lg = (Inr s', lg @ lg')"
      "length (injects s') + length lg' = length (injects s1) + length recs"
      "list_all is_add_failure lg'" by blast
    with True len i a show ?thesis by auto
  next
    case False
    from Cons.IH [OF rest, of "Suc pos" s1 "lg @ [FailedToAddInject err]"]
    obtain s' lg' where
      "attach_injects uuid t1 t2 (Suc pos) s1 recs (lg @ [FailedToAddInject err])
         = (Inr s', (lg @ [FailedToAddInject err]) @ lg')"
      "length (injects s') + length lg' = length (injects s1) + length recs"
      "list_all is_add_failure lg'" by blast
    with False len i a show ?thesis
      by (intro exI [of _ s'] exI [of _ "FailedToAddInject err # lg'"]) auto
  qed
qed

lemma Scenario_init_injects:
  "Scenario_init u now ttl ds ty cx org dur cm md = Inr s \<Longrightarrow> injects s = []"
  by (auto simp add: Scenario_init_def split: sum.splits)

text \<open>
  Claim C9 says that a malformed inject record is logged and dropped and never makes the
  attempt fail. The \<open>Inject\<close> constructor is called in the loop outside any handler of its own:
  a record whose content lacks the required fields raises \<open>ValidationError\<close>, the attempt
  ends before the validator is called, and the generator logs the attempt as failed.
\<close>

theorem malformed_inject_aborts_attempt:
  "fst (generation_attempt (mock_env (accept_from 0) malformed_records) (fixed_clock 0)
          ''security_incident'' example_context [''soc2''] 2 empty_generator 0)
     = Raised (ValidationError ''Missing required content fields'')
   \<and> validator_calls
       (snd (generation_attempt (mock_env (accept_from 0) malformed_records) (fixed_clock 0)
               ''security_incident'' example_context [''soc2''] 2 empty_generator 0)) = 0
   \<and> gen_log
       (after_failed_attempt 0
          (generation_attempt (mock_env (accept_from 0) malformed_records) (fixed_clock 0)
             ''security_incident'' example_context [''soc2''] 2 empty_generator 0))
     = [AttemptRaised 1 (ValidationError ''Missing required content fields'')]"
  by (simp add: generation_attempt_def mock_env_def malformed_records_def example_record_def
        example_data_def Scenario_init_def validate_scenario_type_field_def
        validate_complexity_def SCENARIO_TYPES_def SCENARIO_COMPLEXITY_LEVELS_def
        Inject_init_def validate_inject_type_def validate_content_def empty_generator_def
        fixed_clock_def Let_def)

lemma Inject_init_error_any_uuid:
  "Inject_init u d = Inl err \<Longrightarrow> Inject_init u' d = Inl err"
  by (auto simp add: Inject_init_def split: option.splits sum.splits prod.splits)

lemma attach_injects_refused_record:
  "\<not> list_all inject_record_ok recs \<Longrightarrow>
   \<exists>err lg'. attach_injects uuid t1 t2 pos s recs lg = (Inl err, lg') \<and>
     (\<exists>d\<in>set recs. Inject_init [] d = Inl err)"
proof (induction recs arbitrary: pos s lg)
  case Nil
  then show ?case by simp
next
  case (Cons d recs)
  show ?case
  proof (cases "inject_record_ok d")
    case False
    then obtain err where e: "Inject_init [] d = Inl err"
      by (auto simp add: inject_record_ok_def split: sum.splits)
    then have "Inject_init (uuid (Suc pos)) d = Inl err"
      by (rule Inject_init_error_any_uuid)
    with e show ?thesis by auto
  next
    case True
    with Cons.prems have rest: "\<not> list_all inject_record_ok recs" by simp
    from inject_record_ok_init [OF True]
    obtain i where i: "Inject_init (uuid (Suc pos)) d = Inr i" by blast
    obtain s1 ok e where a: "add_inject (t1 pos) (t2 pos) s i = (s1, ok, e)"
      by (cases "add_inject (t1 pos) (t2 pos) s i") auto
    from Cons.IH [OF rest, of "Suc pos" s1 "if \<not> ok then lg @ [FailedToAddInject e] else lg"]
    show ?thesis by (auto simp add: i a)
  qed
qed

text \<open>
  Claim C9, as amended. In an attempt whose content source answers: when every inject
  record is accepted by the \<open>Inject\<close> constructor, each record is either stored in the
  candidate or refused by \<open>add_inject\<close> and logged with one warning, and the attempt goes
  on to call the validator on the candidate and ends as the validator says; when some
  record is refused by the constructor, wherever it stands in the list, the attempt
  ends with the constructor's exception before the validator is called, and the loop
  counts it as a failed attempt.
\<close>

theorem rejected_injects_are_skipped:
  assumes "llm_generate_scenario e (base_generation_calls g) ty org fs = Inr sd"
    and "sd_title sd = Some ttl" and "sd_description sd = Some ds"
    and "sd_compliance_mappings sd = Some cm"
    and "Scenario_init (uuid4 e (base_generation_calls g) 0) (clock (ScenarioCreated a))
           ttl ds ty cx org None cm
           [(''ai_generated'', PyBool True),
            (''generation_timestamp'', PyIso (clock (GenerationTimestamp a))),
            (''compliance_frameworks'', PyStrList fs)] = Inr s"
    and "llm_generate_injects e (inject_generation_calls g) sd cx = Inr recs"
  shows "(list_all inject_record_ok recs \<longrightarrow>
          (\<exists>s' lg'.
             gen_log (snd (generation_attempt e clock ty org fs cx g a)) = gen_log g @ lg'
             \<and> list_all is_add_failure lg'
             \<and> length (injects s') + length lg' = length recs
             \<and> validator_calls (snd (generation_attempt e clock ty org fs cx g a))
                 = Suc (validator_calls g)
             \<and> fst (generation_attempt e clock ty org fs cx g a)
                 = (case validator_validate_scenario e (validator_calls g) s' of
                      Inl err \<Rightarrow> Raised err
                    | Inr (verdict, report) \<Rightarrow> Validated s' verdict report)))
       \<and> (\<not> list_all inject_record_ok recs \<longrightarrow>
          (\<exists>err. fst (generation_attempt e clock ty org fs cx g a) = Raised err
             \<and> (\<exists>d\<in>set recs. Inject_init [] d = Inl err)
             \<and> validator_calls (snd (generation_attempt e clock ty org fs cx g a))
                 = validator_calls g
             \<and> (a < max_attempts cfg \<longrightarrow>
                  generation_loop e clock cfg ty org fs cx key g a
                    = generation_loop e clock cfg ty org fs cx key
                        (after_failed_attempt a (generation_attempt e clock ty org fs cx g a))
                        (a + 1))))"
proof (intro conjI impI)
  assume ok: "list_all inject_record_ok recs"
  from attach_injects_well_formed [OF ok,
         of "uuid4 e (base_generation_calls g)" "\<lambda>p. clock (InjectUpdated a p)"
            "\<lambda>p. clock (InjectStamped a p)" 0 s "gen_log g"]
  obtain s' lg' where
    at: "attach_injects (uuid4 e (base_generation_calls g)) (\<lambda>p. clock (InjectUpdated a p))
           (\<lambda>p. clock (InjectStamped a p)) 0 s recs (gen_log g) = (Inr s', gen_log g @ lg')"
    and len: "length (injects s') + length lg' = length (injects s) + length recs"
    and fl: "list_all is_add_failure lg'" by blast
  from Scenario_init_injects [OF assms(5)] len
  have len': "length (injects s') + length lg' = length recs" by simp
  show "\<exists>s' lg'.
          gen_log (snd (generation_attempt e clock ty org fs cx g a)) = gen_log g @ lg'
          \<and> list_all is_add_failure lg'
          \<and> length (injects s') + length lg' = length recs
          \<and> validator_calls (snd (generation_attempt e clock ty org fs cx g a))
              = Suc (validator_calls g)
          \<and> fst (generation_attempt e clock ty org fs cx g a)
              = (case validator_validate_scenario e (validator_calls g) s' of
                   Inl err \<Rightarrow> Raised err
                 | Inr (verdict, report) \<Rightarrow> Validated s' verdict report)"
    apply (rule exI [of _ s'])
    apply (rule exI [of _ lg'])
    using assms at len' fl
    by (simp add: generation_attempt_def Let_def split: sum.splits prod.splits)
next
  assume bad: "\<not> list_all inject_record_ok recs"
  from attach_injects_refused_record [OF bad,
         of "uuid4 e (base_generation_calls g)" "\<lambda>p. clock (InjectUpdated a p)"
            "\<lambda>p. clock (InjectStamped a p)" 0 s "gen_log g"]
  obtain err lg' where
    at: "attach_injects (uuid4 e (base_generation_calls g)) (\<lambda>p. clock (InjectUpdated a p))
           (\<lambda>p. clock (InjectStamped a p)) 0 s recs (gen_log g) = (Inl err, lg')"
    and d: "\<exists>d\<in>set recs. Inject_init [] d = Inl err" by blast
  have r: "fst (generation_attempt e clock ty org fs cx g a) = Raised err"
    using assms at by (simp add: generation_attempt_def Let_def)
  have v: "validator_calls (snd (generation_attempt e clock ty org fs cx g a))
             = validator_calls g"
    using assms at by (simp add: generation_attempt_def Let_def)
  have l: "generation_loop e clock cfg ty org fs cx key g a
             = generation_loop e clock cfg ty org fs cx key
                 (after_failed_attempt a (generation_attempt e clock ty org fs cx g a)) (a + 1)"
    if "a < max_attempts cfg"
    using loop_step_raised [OF that r] .
  show "\<exists>err. fst (generation_attempt e clock ty org fs cx g a) = Raised err
             \<and> (\<exists>d\<in>set recs. Inject_init [] d = Inl err)
             \<and> validator_calls (snd (generation_attempt e clock ty org fs cx g a))
                 = validator_calls g
             \<and> (a < max_attempts cfg \<longrightarrow>
                  generation_loop e clock cfg ty org fs cx key g a
                    = generation_loop e clock cfg ty org fs cx key
                        (after_failed_attempt a (generation_attempt e clock ty org fs cx g a))
                        (a + 1))"
    using r d v l by blast
qed

theorem rejected_injects_are_skipped_witness:
  "llm_generate_scenario (mock_env (accept_from 0) example_records)
       (base_generation_calls empty_generator) ''security_incident'' example_context [''soc2'']
     = Inr example_data
   \<and> Scenario_init ''scenario'' 0 ''Ransomware Incident Response''
        ''Enterprise-wide ransomware incident response exercise'' ''security_incident'' 2
        example_context None \<lparr> cm_controls = None \<rparr>
        [(''ai_generated'', PyBool True), (''generation_timestamp'', PyIso 0),
         (''compliance_frameworks'', PyStrList [''soc2''])] = Inr example_generated
   \<and> list_all inject_record_ok example_records
   \<and> gen_log (snd (generation_attempt (mock_env (accept_from 0) example_records)
         (fixed_clock 0) ''security_incident'' example_context [''soc2''] 2 empty_generator 0))
      = [FailedToAddInject (Some ''Sequence number 1 already exists''),
         FailedToAddInject (Some ''Total inject duration exceeds scenario duration'')]
   \<and> validator_calls (snd (generation_attempt (mock_env (accept_from 0) example_records)
         (fixed_clock 0) ''security_incident'' example_context [''soc2''] 2 empty_generator 0))
      = 1
   \<and> outcome_verdict (fst (generation_attempt (mock_env (accept_from 0) example_records)
         (fixed_clock 0) ''security_incident'' example_context [''soc2''] 2 empty_generator 0))
      = Some (True, example_report True (96 / 100))
   \<and> \<not> list_all inject_record_ok mixed_records
   \<and> fst (generation_attempt (mock_env (accept_from 0) mixed_records)
         (fixed_clock 0) ''security_incident'' example_context [''soc2''] 2 empty_generator 0)
      = Raised (ValidationError ''Missing required content fields'')
   \<and> validator_calls (snd (generation_attempt (mock_env (accept_from 0) mixed_records)
         (fixed_clock 0) ''security_incident'' example_context [''soc2''] 2 empty_generator 0))
      = 0"
  using rejected_injects_are_skipped
          [of "mock_env (accept_from 0) example_records" empty_generator
              "''security_incident''" example_context "[''soc2'']" example_data
              "''Ransomware Incident Response''"
              "''Enterprise-wide ransomware incident response exercise''"
              "\<lparr> cm_controls = None \<rparr>" "fixed_clock 0" 0 2 example_generated example_records
              default_config "''key''"]
        rejected_injects_are_skipped
          [of "mock_env (accept_from 0) mixed_records" empty_generator
              "''security_incident''" example_context "[''soc2'']" example_data
              "''Ransomware Incident Response''"
              "''Enterprise-wide ransomware incident response exercise''"
              "\<lparr> cm_controls = None \<rparr>" "fixed_clock 0" 0 2 example_generated mixed_records
              default_config "''key''"]
  by (simp add: generation_attempt_def mock_env_def example_records_def mixed_records_def
        example_record_def
        example_content_def example_data_def example_generated_def example_scenario_def
        Scenario_init_def validate_scenario_type_field_def
        validate_complexity_def SCENARIO_TYPES_def SCENARIO_COMPLEXITY_LEVELS_def
        DEFAULT_DURATION_MINUTES_def inject_record_ok_def
        Inject_init_def validate_inject_type_def validate_content_def empty_generator_def
        fixed_clock_def accept_from_def add_inject_def str_int_1 Let_def)

subsection \<open>Bounded retries\<close>

lemma generation_loop_exhausted:
  assumes rej: "\<forall>n s v r. validator_validate_scenario e n s = Inr (v, r) \<longrightarrow>
                  \<not> accepted cfg (v, r)"
  shows "a \<le> max_attempts cfg \<Longrightarrow>
     fst (generation_loop e clock cfg ty org fs cx key g a)
       = Inl (RuntimeError (''Failed to generate valid scenario after ''
                @ str_int (max_attempts cfg) @ '' attempts''))
     \<and> int (base_generation_calls (snd (generation_loop e clock cfg ty org fs cx key g a)))
       = int (base_generation_calls g) + (max_attempts cfg - a)"
proof (induction "nat (max_attempts cfg - a)" arbitrary: g a)
  case 0
  then have "\<not> a < max_attempts cfg" and "max_attempts cfg - a = 0" by simp_all
  then show ?case by (simp add: loop_end)
next
  case (Suc n)
  then have lt: "a < max_attempts cfg" by linarith
  let ?out = "generation_attempt e clock ty org fs cx g a"
  let ?g = "after_failed_attempt a ?out"
  have step: "generation_loop e clock cfg ty org fs cx key g a
                = generation_loop e clock cfg ty org fs cx key ?g (a + 1)"
  proof (cases "fst ?out")
    case (Raised err)
    from loop_step_raised [OF lt this] show ?thesis .
  next
    case (Validated s v r)
    from attempt_validated [OF this] rej have "\<not> accepted cfg (v, r)" by blast
    from loop_step_rejected [OF lt Validated this] show ?thesis .
  qed
  have calls: "base_generation_calls ?g = Suc (base_generation_calls g)"
    by (simp add: after_failed_base_calls attempt_base_calls)
  from Suc.hyps(2) have n: "n = nat (max_attempts cfg - (a + 1))" by linarith
  from lt have le: "a + 1 \<le> max_attempts cfg" by simp
  from Suc.hyps(1) [OF n le, of ?g] show ?case
    by (simp add: step calls)
qed

lemma generation_loop_success:
  "generation_loop e clock cfg ty org fs cx key g a = (Inr p, g1) \<Longrightarrow>
     cache g1 key = Some \<lparr> ce_scenario = fst p, ce_validation = snd p,
                            ce_timestamp = clock CacheStore \<rparr>
     \<and> base_generation_calls g < base_generation_calls g1
     \<and> int (base_generation_calls g1) \<le> int (base_generation_calls g) + (max_attempts cfg - a)"
proof (induction "nat (max_attempts cfg - a)" arbitrary: g a)
  case 0
  then have "\<not> a < max_attempts cfg" by simp
  from loop_end [OF this] 0(2) show ?case by simp
next
  case (Suc n)
  then have lt: "a < max_attempts cfg" by linarith
  let ?out = "generation_attempt e clock ty org fs cx g a"
  let ?g = "after_failed_attempt a ?out"
  have calls: "base_generation_calls ?g = Suc (base_generation_calls g)"
    by (simp add: after_failed_base_calls attempt_base_calls)
  from Suc.hyps(2) have n: "n = nat (max_attempts cfg - (a + 1))" by linarith
  have retry: ?case
    if step: "generation_loop e clock cfg ty org fs cx key g a
                = generation_loop e clock cfg ty org fs cx key ?g (a + 1)"
  proof -
    from Suc.prems step
    have "generation_loop e clock cfg ty org fs cx key ?g (a + 1) = (Inr p, g1)" by simp
    from Suc.hyps(1) [OF n this] show ?thesis by (simp add: calls)
  qed
  show ?case
  proof (cases "fst ?out")
    case (Raised err)
    from loop_step_raised [OF lt this] show ?thesis by (rule retry)
  next
    case (Validated s v r)
    show ?thesis
    proof (cases "accepted cfg (v, r)")
      case False
      from loop_step_rejected [OF lt Validated False] show ?thesis by (rule retry)
    next
      case True
      from loop_step_accepted [OF lt Validated True, of key] Suc.prems
      have p: "p = (s, r)"
        and g1: "g1 = (update_performance_metrics (a + 1)
                   (cache_scenario key (s, r) (clock CacheStore) (snd ?out)))
                  \<lparr> gen_log := gen_log (snd ?out) @ [GenerationSucceeded (a + 1)] \<rparr>"
        by simp_all
      have "base_generation_calls g1 = Suc (base_generation_calls g)"
        by (simp add: g1 update_performance_metrics_def cache_scenario_def attempt_base_calls)
      moreover have "cache g1 key = Some \<lparr> ce_scenario = fst p, ce_validation = snd p,
                            ce_timestamp = clock CacheStore \<rparr>"
        by (simp add: g1 p update_performance_metrics_def cache_scenario_def)
      ultimately show ?thesis using lt by simp
    qed
  qed
qed

lemma str_int_2: "str_int 2 = ''2''"
  by (simp add: str_int_digit digit_char_def)

lemma mock_attempt:
  "generation_attempt (mock_env acc []) (fixed_clock 0) ''security_incident'' example_context
     [''soc2''] 2 g a
   = (Validated example_generated (acc (validator_calls g))
        (example_report (acc (validator_calls g))
           (if acc (validator_calls g) then 96 / 100 else 85 / 100)),
      g \<lparr> gen_log := gen_log g,
          base_generation_calls := Suc (base_generation_calls g),
          inject_generation_calls := Suc (inject_generation_calls g),
          validator_calls := Suc (validator_calls g) \<rparr>)"
  by (simp add: generation_attempt_def mock_env_def example_data_def example_generated_def
        example_scenario_def Scenario_init_def validate_scenario_type_field_def
        validate_complexity_def SCENARIO_TYPES_def SCENARIO_COMPLEXITY_LEVELS_def
        DEFAULT_DURATION_MINUTES_def fixed_clock_def Let_def)

lemma third_attempt_accepted:
  assumes "max_attempts cfg = 3" and "ty \<in> fst ` set SCENARIO_TYPES"
    and "1 \<le> cx" and "cx \<le> 5"
    and "get_cached_scenario cfg g (generate_cache_key e ty org fs cx) (clock CacheLookup)
           = None"
    and h1: "fst (generation_attempt e clock ty org fs cx g 0) = Validated s1 v1 r1"
    and n1: "\<not> accepted cfg (v1, r1)"
    and h2: "fst (generation_attempt e clock ty org fs cx
                   (after_failed_attempt 0 (generation_attempt e clock ty org fs cx g 0)) 1)
              = Validated s2 v2 r2"
    and n2: "\<not> accepted cfg (v2, r2)"
    and h3: "fst (generation_attempt e clock ty org fs cx
                   (after_failed_attempt 1
                      (generation_attempt e clock ty org fs cx
                         (after_failed_attempt 0 (generation_attempt e clock ty org fs cx g 0))
                         1)) 2)
              = Validated s3 v3 r3"
    and a3: "accepted cfg (v3, r3)"
  shows "fst (generate_scenario e clock cfg g ty org fs (Some cx)) = Inr (s3, r3)
         \<and> base_generation_calls (snd (generate_scenario e clock cfg g ty org fs (Some cx)))
             = base_generation_calls g + 3"
proof -
  let ?key = "generate_cache_key e ty org fs cx"
  let ?A1 = "generation_attempt e clock ty org fs cx g 0"
  let ?g1 = "after_failed_attempt 0 ?A1"
  let ?A2 = "generation_attempt e clock ty org fs cx ?g1 1"
  let ?g2 = "after_failed_attempt 1 ?A2"
  let ?A3 = "generation_attempt e clock ty org fs cx ?g2 2"
  have gs: "generate_scenario e clock cfg g ty org fs (Some cx)
              = generation_loop e clock cfg ty org fs cx ?key g 0"
    using assms(2-5) by (simp add: generate_scenario_def effective_complexity_def Let_def)
  have l0: "(0::int) < max_attempts cfg" and l1: "(1::int) < max_attempts cfg"
    and l2: "(2::int) < max_attempts cfg" by (simp_all add: assms(1))
  from loop_step_rejected [OF l0 h1 n1, of ?key]
  have e1: "generation_loop e clock cfg ty org fs cx ?key g 0
              = generation_loop e clock cfg ty org fs cx ?key ?g1 1" by simp
  from loop_step_rejected [OF l1 h2 n2, of ?key]
  have e2: "generation_loop e clock cfg ty org fs cx ?key ?g1 1
              = generation_loop e clock cfg ty org fs cx ?key ?g2 2" by simp
  note e3 = loop_step_accepted [OF l2 h3 a3, of ?key]
  have c: "base_generation_calls (snd ?A3) = base_generation_calls g + 3"
    by (simp add: attempt_base_calls after_failed_base_calls)
  show ?thesis
    by (simp add: gs e1 e2 e3 c update_performance_metrics_def cache_scenario_def)
qed

lemma mock_third_attempt_accepted:
  "fst (generate_scenario (mock_env (accept_from 2) []) (fixed_clock 0) default_config
          empty_generator ''security_incident'' example_context [''soc2''] (Some 2))
     = Inr (example_generated, example_report True (96 / 100))
   \<and> base_generation_calls
       (snd (generate_scenario (mock_env (accept_from 2) []) (fixed_clock 0) default_config
               empty_generator ''security_incident'' example_context [''soc2''] (Some 2))) = 3"
proof -
  let ?rep0 = "example_report False (85 / 100)"
  let ?rep1 = "example_report True (96 / 100)"
  have m: "max_attempts default_config = 3"
    by (simp add: default_config_def MAX_GENERATION_ATTEMPTS_def)
  have t: "''security_incident'' \<in> fst ` set SCENARIO_TYPES"
    by (simp add: SCENARIO_TYPES_def)
  have c: "get_cached_scenario default_config empty_generator k (fixed_clock 0 CacheLookup)
             = None" for k
    by (simp add: get_cached_scenario_def empty_generator_def)
  have n: "\<not> accepted default_config (False, ?rep0)"
    by (simp add: accepted_def)
  have a: "accepted default_config (True, ?rep1)"
    by (simp add: accepted_def default_config_def example_report_def)
  have v0: "validator_calls empty_generator = 0" by (simp add: empty_generator_def)
  have b0: "base_generation_calls empty_generator = 0" by (simp add: empty_generator_def)
  from third_attempt_accepted
         [where cfg = default_config and ty = "''security_incident''" and cx = 2
            and g = empty_generator and e = "mock_env (accept_from 2) []"
            and org = example_context and fs = "[''soc2'']" and clock = "fixed_clock 0"
            and ?s1.0 = example_generated and ?v1.0 = False and ?r1.0 = ?rep0
            and ?s2.0 = example_generated and ?v2.0 = False and ?r2.0 = ?rep0
            and ?s3.0 = example_generated and ?v3.0 = True and ?r3.0 = ?rep1,
          OF m t _ _ c]
  show ?thesis
    using n a by (simp add: mock_attempt v0 b0 accept_from_def)
qed

text \<open>
  Claim C2. With \<open>max_attempts = 3\<close>, a valid type, a complexity from 1 to 5 and no live
  cache entry: when the first and the second attempt end with a candidate that the
  validator does not accept and the third with one that it accepts, \<open>generate_scenario\<close>
  returns that candidate with its report and has invoked the content source's base
  generation exactly 3 times; when the validator accepts no candidate at all,
  \<open>generate_scenario\<close> raises the \<open>RuntimeError\<close> of the exhausted attempts, again after
  exactly 3 invocations, and returns no scenario.
\<close>

theorem generate_bounded_retries:
  assumes "max_attempts cfg = 3" and "ty \<in> fst ` set SCENARIO_TYPES"
    and "1 \<le> cx" and "cx \<le> 5"
    and "get_cached_scenario cfg g (generate_cache_key e ty org fs cx) (clock CacheLookup)
           = None"
  shows "(fst (generation_attempt e clock ty org fs cx g 0) = Validated s1 v1 r1
          \<and> \<not> accepted cfg (v1, r1)
          \<and> fst (generation_attempt e clock ty org fs cx
                   (after_failed_attempt 0 (generation_attempt e clock ty org fs cx g 0)) 1)
              = Validated s2 v2 r2
          \<and> \<not> accepted cfg (v2, r2)
          \<and> fst (generation_attempt e clock ty org fs cx
                   (after_failed_attempt 1
                      (generation_attempt e clock ty org fs cx
                         (after_failed_attempt 0 (generation_attempt e clock ty org fs cx g 0))
                         1)) 2)
              = Validated s3 v3 r3
          \<and> accepted cfg (v3, r3)
          \<longrightarrow> fst (generate_scenario e clock cfg g ty org fs (Some cx)) = Inr (s3, r3)
              \<and> base_generation_calls (snd (generate_scenario e clock cfg g ty org fs (Some cx)))
                  = base_generation_calls g + 3)
       \<and> ((\<forall>n s v r. validator_validate_scenario e n s = Inr (v, r) \<longrightarrow>
               \<not> accepted cfg (v, r))
          \<longrightarrow> fst (generate_scenario e clock cfg g ty org fs (Some cx))
                = Inl (RuntimeError ''Failed to generate valid scenario after 3 attempts'')
              \<and> base_generation_calls (snd (generate_scenario e clock cfg g ty org fs (Some cx)))
                  = base_generation_calls g + 3)"
proof -
  let ?key = "generate_cache_key e ty org fs cx"
  let ?A1 = "generation_attempt e clock ty org fs cx g 0"
  let ?g1 = "after_failed_attempt 0 ?A1"
  let ?A2 = "generation_attempt e clock ty org fs cx ?g1 1"
  let ?g2 = "after_failed_attempt 1 ?A2"
  let ?A3 = "generation_attempt e clock ty org fs cx ?g2 2"
  have gs: "generate_scenario e clock cfg g ty org fs (Some cx)
              = generation_loop e clock cfg ty org fs cx ?key g 0"
    using assms(2-5) by (simp add: generate_scenario_def effective_complexity_def Let_def)
  have first: "fst (generate_scenario e clock cfg g ty org fs (Some cx)) = Inr (s3, r3)
              \<and> base_generation_calls (snd (generate_scenario e clock cfg g ty org fs (Some cx)))
                  = base_generation_calls g + 3"
    if h: "fst ?A1 = Validated s1 v1 r1 \<and> \<not> accepted cfg (v1, r1)
          \<and> fst ?A2 = Validated s2 v2 r2 \<and> \<not> accepted cfg (v2, r2)
          \<and> fst ?A3 = Validated s3 v3 r3 \<and> accepted cfg (v3, r3)"
    using third_attempt_accepted [where clock = clock, OF assms] that by blast
  have second: "fst (generate_scenario e clock cfg g ty org fs (Some cx))
                = Inl (RuntimeError ''Failed to generate valid scenario after 3 attempts'')
              \<and> base_generation_calls (snd (generate_scenario e clock cfg g ty org fs (Some cx)))
                  = base_generation_calls g + 3"
    if rej: "\<forall>n s v r. validator_validate_scenario e n s = Inr (v, r) \<longrightarrow>
               \<not> accepted cfg (v, r)"
  proof -
    have "(0::int) \<le> max_attempts cfg" by (simp add: assms(1))
    from generation_loop_exhausted [OF rej this, of clock ty org fs cx ?key g]
    show ?thesis by (simp add: gs assms(1) str_int_3)
  qed
  from first second show ?thesis by blast
qed

theorem generate_bounded_retries_witness:
  "max_attempts default_config = 3
   \<and> ''security_incident'' \<in> fst ` set SCENARIO_TYPES
   \<and> get_cached_scenario default_config empty_generator
        (generate_cache_key (mock_env (accept_from 2) []) ''security_incident'' example_context
           [''soc2''] 2) 0 = None
   \<and> \<not> accepted default_config (False, example_report False (85 / 100))
   \<and> accepted default_config (True, example_report True (96 / 100))
   \<and> fst (generate_scenario (mock_env (accept_from 2) []) (fixed_clock 0) default_config
            empty_generator ''security_incident'' example_context [''soc2''] (Some 2))
      = Inr (example_generated, example_report True (96 / 100))
   \<and> base_generation_calls
       (snd (generate_scenario (mock_env (accept_from 2) []) (fixed_clock 0) default_config
               empty_generator ''security_incident'' example_context [''soc2''] (Some 2))) = 3
   \<and> fst (generate_scenario (mock_env never_accept []) (fixed_clock 0) default_config
            empty_generator ''security_incident'' example_context [''soc2''] (Some 2))
      = Inl (RuntimeError ''Failed to generate valid scenario after 3 attempts'')
   \<and> base_generation_calls
       (snd (generate_scenario (mock_env never_accept []) (fixed_clock 0) default_config
               empty_generator ''security_incident'' example_context [''soc2''] (Some 2))) = 3"
proof -
  let ?rep0 = "example_report False (85 / 100)"
  let ?rep1 = "example_report True (96 / 100)"
  have m: "max_attempts default_config = 3"
    by (simp add: default_config_def MAX_GENERATION_ATTEMPTS_def)
  have t: "''security_incident'' \<in> fst ` set SCENARIO_TYPES"
    by (simp add: SCENARIO_TYPES_def)
  have c: "get_cached_scenario default_config empty_generator k (fixed_clock 0 CacheLookup)
             = None" for k
    by (simp add: get_cached_scenario_def empty_generator_def)
  have n: "\<not> accepted default_config (False, ?rep0)"
    by (simp add: accepted_def)
  have a: "accepted default_config (True, ?rep1)"
    by (simp add: accepted_def default_config_def example_report_def)
  have v0: "validator_calls empty_generator = 0" by (simp add: empty_generator_def)
  have b0: "base_generation_calls empty_generator = 0" by (simp add: empty_generator_def)
  have rej: "\<forall>n s v r. validator_validate_scenario (mock_env never_accept []) n s = Inr (v, r)
               \<longrightarrow> \<not> accepted default_config (v, r)"
    by (auto simp add: mock_env_def never_accept_def accepted_def)
  from generate_bounded_retries
         [where cfg = default_config and ty = "''security_incident''" and cx = 2
            and g = empty_generator and e = "mock_env (accept_from 2) []"
            and org = example_context and fs = "[''soc2'']" and clock = "fixed_clock 0"
            and ?s1.0 = example_generated and ?v1.0 = False and ?r1.0 = ?rep0
            and ?s2.0 = example_generated and ?v2.0 = False and ?r2.0 = ?rep0
            and ?s3.0 = example_generated and ?v3.0 = True and ?r3.0 = ?rep1,
          OF m t _ _ c]
  have one: "fst (generate_scenario (mock_env (accept_from 2) []) (fixed_clock 0) default_config
            empty_generator ''security_incident'' example_context [''soc2''] (Some 2))
      = Inr (example_generated, ?rep1)
   \<and> base_generation_calls
       (snd (generate_scenario (mock_env (accept_from 2) []) (fixed_clock 0) default_config
               empty_generator ''security_incident'' example_context [''soc2''] (Some 2))) = 3"
    using n a by (simp add: mock_attempt v0 b0 accept_from_def)
  from generate_bounded_retries
         [where cfg = default_config and ty = "''security_incident''" and cx = 2
            and g = empty_generator and e = "mock_env never_accept []"
            and org = example_context and fs = "[''soc2'']" and clock = "fixed_clock 0",
          OF m t _ _ c] rej
  have two: "fst (generate_scenario (mock_env never_accept []) (fixed_clock 0) default_config
            empty_generator ''security_incident'' example_context [''soc2''] (Some 2))
      = Inl (RuntimeError ''Failed to generate valid scenario after 3 attempts'')
   \<and> base_generation_calls
       (snd (generate_scenario (mock_env never_accept []) (fixed_clock 0) default_config
               empty_generator ''security_incident'' example_context [''soc2''] (Some 2))) = 3"
    by (simp add: b0)
  from m t c [of "generate_cache_key (mock_env (accept_from 2) []) ''security_incident''
                    example_context [''soc2''] 2"] n a one two
  show ?thesis by (simp add: fixed_clock_def)
qed

subsection \<open>The second call and the cache\<close>

lemma timedelta_seconds_within:
  assumes "0 \<le> d" and "d < ttl * 1000000"
  shows "timedelta_seconds d < ttl"
proof -
  have a: "d mod 86400000000 \<le> d" using assms(1) by (rule zmod_le_nonneg_dividend)
  have b: "(d mod 86400000000) div 1000000 \<le> d div 1000000"
    using a by (rule zdiv_mono1) simp
  have c: "d div 1000000 * 1000000 + d mod 1000000 = d" by (rule div_mult_mod_eq)
  have e: "0 \<le> d mod 1000000" by simp
  from c e assms(2) have "d div 1000000 < ttl" by linarith
  with b show ?thesis by (simp add: timedelta_seconds_def)
qed

lemma second_call_hits_cache:
  assumes first: "generate_scenario e clock1 cfg g ty org fs rc = (Inr p, g1)"
    and miss: "get_cached_scenario cfg g
                 (generate_cache_key e ty org fs (effective_complexity rc))
                 (clock1 CacheLookup) = None"
    and w1: "0 \<le> clock2 CacheLookup - clock1 CacheStore"
    and w2: "clock2 CacheLookup - clock1 CacheStore < cache_ttl cfg * 1000000"
  shows "generate_scenario e clock2 cfg g1 ty org fs rc
           = (Inr p, g1 \<lparr> gen_log := gen_log g1 @ [RetrievedFromCache] \<rparr>)"
    and "base_generation_calls g < base_generation_calls g1"
    and "int (base_generation_calls g1) \<le> int (base_generation_calls g) + max_attempts cfg"
proof -
  let ?cx = "effective_complexity rc"
  let ?key = "generate_cache_key e ty org fs ?cx"
  have ty: "ty \<in> fst ` set SCENARIO_TYPES"
    by (rule ccontr) (use first in \<open>simp add: generate_scenario_def\<close>)
  have cx: "1 \<le> ?cx \<and> ?cx \<le> 5"
    by (rule ccontr) (use first ty in \<open>simp add: generate_scenario_def Let_def\<close>)
  from first ty cx miss
  have loop: "generation_loop e clock1 cfg ty org fs ?cx ?key g 0 = (Inr p, g1)"
    by (simp add: generate_scenario_def Let_def)
  note s = generation_loop_success [OF loop]
  have hit: "get_cached_scenario cfg g1 ?key (clock2 CacheLookup) = Some p"
    using s timedelta_seconds_within [OF w1 w2] by (simp add: get_cached_scenario_def)
  show "generate_scenario e clock2 cfg g1 ty org fs rc
           = (Inr p, g1 \<lparr> gen_log := gen_log g1 @ [RetrievedFromCache] \<rparr>)"
    using ty cx hit by (simp add: generate_scenario_def Let_def)
  show "base_generation_calls g < base_generation_calls g1" using s by simp
  show "int (base_generation_calls g1) \<le> int (base_generation_calls g) + max_attempts cfg"
    using s by simp
qed

text \<open>
  Claim C5 says that the two calls invoke the content source at most once in total. The
  first call retries inside its loop: with a validator that accepts on the third
  attempt, the first call succeeds, the second call returns the same pair from the
  cache, and the content source's base generation has been invoked 3 times.
\<close>

theorem retried_call_invokes_source_twice:
  "fst (generate_scenario (mock_env (accept_from 2) []) (fixed_clock 0) default_config
          empty_generator ''security_incident'' example_context [''soc2''] (Some 2))
     = Inr (example_generated, example_report True (96 / 100))
   \<and> fst (generate_scenario (mock_env (accept_from 2) []) (fixed_clock 0) default_config
          (snd (generate_scenario (mock_env (accept_from 2) []) (fixed_clock 0) default_config
                  empty_generator ''security_incident'' example_context [''soc2''] (Some 2)))
          ''security_incident'' example_context [''soc2''] (Some 2))
     = Inr (example_generated, example_report True (96 / 100))
   \<and> base_generation_calls
       (snd (generate_scenario (mock_env (accept_from 2) []) (fixed_clock 0) default_config
          (snd (generate_scenario (mock_env (accept_from 2) []) (fixed_clock 0) default_config
                  empty_generator ''security_incident'' example_context [''soc2''] (Some 2)))
          ''security_incident'' example_context [''soc2''] (Some 2))) = 3"
proof -
  let ?e = "mock_env (accept_from 2) []"
  let ?first = "generate_scenario ?e (fixed_clock 0) default_config empty_generator
                  ''security_incident'' example_context [''soc2''] (Some 2)"
  let ?p = "(example_generated, example_report True (96 / 100))"
  from mock_third_attempt_accepted have f: "fst ?first = Inr ?p"
    and b: "base_generation_calls (snd ?first) = 3" by simp_all
  from f have first: "?first = (Inr ?p, snd ?first)" by (metis prod.collapse)
  have miss: "get_cached_scenario default_config empty_generator
                (generate_cache_key ?e ''security_incident'' example_context [''soc2'']
                   (effective_complexity (Some 2)))
                (fixed_clock 0 CacheLookup) = None"
    by (simp add: get_cached_scenario_def empty_generator_def)
  have w1: "0 \<le> fixed_clock 0 CacheLookup - fixed_clock 0 CacheStore"
    and w2: "fixed_clock 0 CacheLookup - fixed_clock 0 CacheStore
               < cache_ttl default_config * 1000000"
    by (simp_all add: fixed_clock_def default_config_def CACHE_TTL_def)
  from second_call_hits_cache(1) [where ?clock2.0 = "fixed_clock 0", OF first miss w1 w2]
  show ?thesis using f b by simp
qed

text \<open>
  Claim C5, as amended. When a call of \<open>generate_scenario\<close> finds no live cache entry and
  succeeds, a second call with the same type, organization context, frameworks and
  complexity, whose cache lookup is made less than the TTL after the first call stored
  its result, returns the pair that the first call returned and invokes neither the
  content source nor the validator; the first call has invoked the content source's
  base generation at least once and at most \<open>max_attempts\<close> times.
\<close>

theorem cached_pair_is_returned:
  assumes "generate_scenario e clock1 cfg g ty org fs rc = (Inr p, g1)"
    and "get_cached_scenario cfg g
           (generate_cache_key e ty org fs (effective_complexity rc))
           (clock1 CacheLookup) = None"
    and "0 \<le> clock2 CacheLookup - clock1 CacheStore"
    and "clock2 CacheLookup - clock1 CacheStore < cache_ttl cfg * 1000000"
  shows "fst (generate_scenario e clock2 cfg g1 ty org fs rc) = Inr p
     \<and> base_generation_calls (snd (generate_scenario e clock2 cfg g1 ty org fs rc))
         = base_generation_calls g1
     \<and> inject_generation_calls (snd (generate_scenario e clock2 cfg g1 ty org fs rc))
         = inject_generation_calls g1
     \<and> validator_calls (snd (generate_scenario e clock2 cfg g1 ty org fs rc))
         = validator_calls g1
     \<and> base_generation_calls g < base_generation_calls g1
     \<and> int (base_generation_calls g1) \<le> int (base_generation_calls g) + max_attempts cfg"
  using second_call_hits_cache [where ?clock2.0 = clock2, OF assms] by simp

theorem cached_pair_is_returned_witness:
  "fst (generate_scenario (mock_env (accept_from 0) []) (fixed_clock 0) default_config
          empty_generator ''security_incident'' example_context [''soc2''] (Some 2))
     = Inr (example_generated, example_report True (96 / 100))
   \<and> get_cached_scenario default_config empty_generator
        (generate_cache_key (mock_env (accept_from 0) []) ''security_incident'' example_context
           [''soc2''] (effective_complexity (Some 2)))
        (fixed_clock 0 CacheLookup) = None
   \<and> 0 \<le> fixed_clock 3599000000 CacheLookup - fixed_clock 0 CacheStore
   \<and> fixed_clock 3599000000 CacheLookup - fixed_clock 0 CacheStore
       < cache_ttl default_config * 1000000
   \<and> fst (generate_scenario (mock_env (accept_from 0) []) (fixed_clock 3599000000)
          default_config
          (snd (generate_scenario (mock_env (accept_from 0) []) (fixed_clock 0) default_config
                  empty_generator ''security_incident'' example_context [''soc2''] (Some 2)))
          ''security_incident'' example_context [''soc2''] (Some 2))
     = Inr (example_generated, example_report True (96 / 100))
   \<and> base_generation_calls
       (snd (generate_scenario (mock_env (accept_from 0) []) (fixed_clock 3599000000)
          default_config
          (snd (generate_scenario (mock_env (accept_from 0) []) (fixed_clock 0) default_config
                  empty_generator ''security_incident'' example_context [''soc2''] (Some 2)))
          ''security_incident'' example_context [''soc2''] (Some 2))) = 1"
proof -
  let ?e = "mock_env (accept_from 0) []"
  let ?key = "generate_cache_key ?e ''security_incident'' example_context [''soc2''] 2"
  let ?first = "generate_scenario ?e (fixed_clock 0) default_config empty_generator
                  ''security_incident'' example_context [''soc2''] (Some 2)"
  let ?p = "(example_generated, example_report True (96 / 100))"
  let ?A1 = "generation_attempt ?e (fixed_clock 0) ''security_incident'' example_context
               [''soc2''] 2 empty_generator 0"
  have gs: "?first = generation_loop ?e (fixed_clock 0) default_config ''security_incident''
                example_context [''soc2''] 2 ?key empty_generator 0"
    by (simp add: generate_scenario_def effective_complexity_def Let_def SCENARIO_TYPES_def
          get_cached_scenario_def empty_generator_def)
  have l0: "(0::int) < max_attempts default_config"
    by (simp add: default_config_def MAX_GENERATION_ATTEMPTS_def)
  have v0: "validator_calls empty_generator = 0" by (simp add: empty_generator_def)
  have b0: "base_generation_calls empty_generator = 0" by (simp add: empty_generator_def)
  have h1: "fst ?A1 = Validated example_generated True (example_report True (96 / 100))"
    by (simp add: mock_attempt v0 accept_from_def)
  have a1: "accepted default_config (True, example_report True (96 / 100))"
    by (simp add: accepted_def default_config_def example_report_def)
  note e1 = loop_step_accepted [OF l0 h1 a1, of ?key]
  have c: "base_generation_calls (snd ?A1) = 1"
    by (simp add: attempt_base_calls b0)
  have f: "fst ?first = Inr ?p" and b: "base_generation_calls (snd ?first) = 1"
    by (simp_all add: gs e1 c update_performance_metrics_def cache_scenario_def)
  from f have first: "?first = (Inr ?p, snd ?first)" by (metis prod.collapse)
  have miss: "get_cached_scenario default_config empty_generator
                (generate_cache_key ?e ''security_incident'' example_context [''soc2'']
                   (effective_complexity (Some 2)))
                (fixed_clock 0 CacheLookup) = None"
    by (simp add: get_cached_scenario_def empty_generator_def)
  have w1: "0 \<le> fixed_clock 3599000000 CacheLookup - fixed_clock 0 CacheStore"
    and w2: "fixed_clock 3599000000 CacheLookup - fixed_clock 0 CacheStore
               < cache_ttl default_config * 1000000"
    by (simp_all add: fixed_clock_def default_config_def CACHE_TTL_def)
  from cached_pair_is_returned [where ?clock2.0 = "fixed_clock 3599000000", OF first miss w1 w2]
    f b miss w1 w2
  show ?thesis by simp
qed

subsection \<open>The inject invariant of generated scenarios\<close>

lemma add_inject_keeps_invariant:
  assumes "inject_invariant s"
  shows "inject_invariant (fst (add_inject now1 now2 s i))"
proof -
  obtain s1 ok err where a: "add_inject now1 now2 s i = (s1, ok, err)"
    by (cases "add_inject now1 now2 s i") auto
  show ?thesis
  proof (cases ok)
    case True
    with a have "add_inject now1 now2 s i = (s1, True, err)" by simp
    from add_inject_preserves_invariant [OF assms this] a show ?thesis by simp
  next
    case False
    with add_inject_length [OF a] have "s1 = s" by simp
    with a assms show ?thesis by simp
  qed
qed

lemma add_injects_keep_invariant:
  "inject_invariant s \<Longrightarrow> inject_invariant (add_injects s calls)"
proof (induction calls arbitrary: s)
  case Nil
  then show ?case by simp
next
  case (Cons c calls)
  obtain now1 now2 i where c: "c = (now1, now2, i)" by (cases c) auto
  from Cons.IH [OF add_inject_keeps_invariant [OF Cons.prems, of now1 now2 i]]
  show ?case by (simp add: c)
qed

lemma attach_injects_keep_invariant:
  "inject_invariant s \<Longrightarrow> attach_injects uuid t1 t2 pos s recs lg = (Inr s', lg') \<Longrightarrow>
   inject_invariant s'"
proof (induction recs arbitrary: pos s lg)
  case Nil
  then show ?case by simp
next
  case (Cons d recs)
  from Cons.prems(2) obtain i where i: "Inject_init (uuid (Suc pos)) d = Inr i"
    by (auto split: sum.splits)
  obtain s1 ok err where a: "add_inject (t1 pos) (t2 pos) s i = (s1, ok, err)"
    by (cases "add_inject (t1 pos) (t2 pos) s i") auto
  from add_inject_keeps_invariant [OF Cons.prems(1), of "t1 pos" "t2 pos" i] a
  have inv1: "inject_invariant s1" by simp
  from Cons.prems(2) i a
  have "attach_injects uuid t1 t2 (Suc pos) s1 recs
          (if \<not> ok then lg @ [FailedToAddInject err] else lg) = (Inr s', lg')"
    by simp
  from Cons.IH [OF inv1 this] show ?case .
qed

lemma Scenario_init_invariant:
  "Scenario_init u now ttl ds ty cx org None cm md = Inr s \<Longrightarrow> inject_invariant s"
  by (auto simp add: Scenario_init_def inject_invariant_def sequence_unique_def
        sequence_sorted_def timeline_fits_def DEFAULT_DURATION_MINUTES_def
        split: sum.splits)

lemma built_candidate_invariant:
  assumes "Scenario_init u now ttl ds ty cx org None cm md = Inr s"
    and "attach_injects uuid t1 t2 pos s recs lg = (Inr c, lg')"
  shows "inject_invariant c"
  using attach_injects_keep_invariant [OF Scenario_init_invariant [OF assms(1)] assms(2)] .

lemma attempt_candidate_invariant:
  assumes "fst (generation_attempt e clock ty org fs cx g a) = Validated c v r"
  shows "inject_invariant c"
  using assms
  by (auto simp add: generation_attempt_def Let_def
        split: sum.splits option.splits prod.splits intro: built_candidate_invariant)

lemma attempt_cache:
  "cache (snd (generation_attempt e clock ty org fs cx g a)) = cache g"
  by (simp add: generation_attempt_def Let_def split: sum.splits option.splits prod.splits)

lemma after_failed_cache:
  "cache (after_failed_attempt a out) = cache (snd out)"
  by (cases "(a, out)" rule: after_failed_attempt.cases) simp_all

lemma generation_loop_returns_invariant:
  "generation_loop e clock cfg ty org fs cx key g a = (Inr p, g1) \<Longrightarrow>
     inject_invariant (fst p)
     \<and> cache g1 = (cache g)(key \<mapsto> \<lparr> ce_scenario = fst p, ce_validation = snd p,
                                       ce_timestamp = clock CacheStore \<rparr>)"
proof (induction "nat (max_attempts cfg - a)" arbitrary: g a)
  case 0
  then have "\<not> a < max_attempts cfg" by simp
  from loop_end [OF this] 0(2) show ?case by simp
next
  case (Suc n)
  then have lt: "a < max_attempts cfg" by linarith
  let ?out = "generation_attempt e clock ty org fs cx g a"
  let ?g = "after_failed_attempt a ?out"
  have c: "cache ?g = cache g" by (simp add: after_failed_cache attempt_cache)
  from Suc.hyps(2) have n: "n = nat (max_attempts cfg - (a + 1))" by linarith
  have retry: ?case
    if step: "generation_loop e clock cfg ty org fs cx key g a
                = generation_loop e clock cfg ty org fs cx key ?g (a + 1)"
  proof -
    from Suc.prems step
    have "generation_loop e clock cfg ty org fs cx key ?g (a + 1) = (Inr p, g1)" by simp
    from Suc.hyps(1) [OF n this] show ?thesis by (simp add: c)
  qed
  show ?case
  proof (cases "fst ?out")
    case (Raised err)
    from loop_step_raised [OF lt this] show ?thesis by (rule retry)
  next
    case (Validated s v r)
    show ?thesis
    proof (cases "accepted cfg (v, r)")
      case False
      from loop_step_rejected [OF lt Validated False] show ?thesis by (rule retry)
    next
      case True
      from loop_step_accepted [OF lt Validated True, of key] Suc.prems
      have p: "p = (s, r)"
        and g1: "g1 = (update_performance_metrics (a + 1)
                   (cache_scenario key (s, r) (clock CacheStore) (snd ?out)))
                  \<lparr> gen_log := gen_log (snd ?out) @ [GenerationSucceeded (a + 1)] \<rparr>"
        by simp_all
      have "inject_invariant (fst p)"
        using attempt_candidate_invariant [OF Validated] by (simp add: p)
      moreover have "cache g1 = (cache g)(key \<mapsto> \<lparr> ce_scenario = fst p,
                          ce_validation = snd p, ce_timestamp = clock CacheStore \<rparr>)"
        by (simp add: g1 p update_performance_metrics_def cache_scenario_def attempt_cache)
      ultimately show ?thesis by simp
    qed
  qed
qed

lemma generate_scenario_returns_invariant:
  assumes inv: "\<forall>k en. cache g k = Some en \<longrightarrow> inject_invariant (ce_scenario en)"
    and ret: "fst (generate_scenario e clock cfg g ty org fs rc) = Inr (c, r)"
  shows "inject_invariant c"
    and "\<forall>k en. cache (snd (generate_scenario e clock cfg g ty org fs rc)) k = Some en \<longrightarrow>
           inject_invariant (ce_scenario en)"
proof -
  let ?cx = "effective_complexity rc"
  let ?key = "generate_cache_key e ty org fs ?cx"
  have ty: "ty \<in> fst ` set SCENARIO_TYPES"
    by (rule ccontr) (use ret in \<open>simp add: generate_scenario_def\<close>)
  have cx: "1 \<le> ?cx \<and> ?cx \<le> 5"
    by (rule ccontr) (use ret ty in \<open>simp add: generate_scenario_def Let_def\<close>)
  have both: "inject_invariant c \<and>
    (\<forall>k en. cache (snd (generate_scenario e clock cfg g ty org fs rc)) k = Some en \<longrightarrow>
           inject_invariant (ce_scenario en))"
  proof (cases "get_cached_scenario cfg g ?key (clock CacheLookup)")
    case (Some cached)
    with ty cx have gs: "generate_scenario e clock cfg g ty org fs rc
        = (Inr cached, g \<lparr> gen_log := gen_log g @ [RetrievedFromCache] \<rparr>)"
      by (simp add: generate_scenario_def Let_def)
    from Some obtain en where en: "cache g ?key = Some en"
      and cached: "cached = (ce_scenario en, ce_validation en)"
      by (auto simp add: get_cached_scenario_def split: option.splits if_splits)
    from ret gs cached have "c = ce_scenario en" by simp
    with inv en have "inject_invariant c" by blast
    with inv show ?thesis by (auto simp add: gs)
  next
    case None
    with ty cx have gs: "generate_scenario e clock cfg g ty org fs rc
        = generation_loop e clock cfg ty org fs ?cx ?key g 0"
      by (simp add: generate_scenario_def Let_def)
    from ret gs
    have "generation_loop e clock cfg ty org fs ?cx ?key g 0
            = (Inr (c, r), snd (generate_scenario e clock cfg g ty org fs rc))"
      by (metis prod.collapse)
    from generation_loop_returns_invariant [OF this] inv show ?thesis
      by (auto split: if_splits)
  qed
  from both show "inject_invariant c" by simp
  from both
  show "\<forall>k en. cache (snd (generate_scenario e clock cfg g ty org fs rc)) k = Some en \<longrightarrow>
           inject_invariant (ce_scenario en)" by simp
qed

text \<open>
  Claim C3. A successful \<open>add_inject\<close> on a scenario whose inject list has pairwise
  distinct sequence numbers, in ascending order, with delays summing to at most the
  duration, gives a scenario with the three properties, and so does any sequence of
  \<open>add_inject\<close> calls, accepted or refused. The scenario that the generator constructs
  has the properties, hence so has every scenario built from it through \<open>add_inject\<close>
  alone: every candidate that an attempt hands to the validator, and every scenario
  that \<open>generate_scenario\<close> returns, from its loop or from its cache, when the cache
  holds only scenarios that earlier calls stored; the cache after the call again holds
  only such scenarios.
\<close>

theorem add_inject_invariant:
  "(inject_invariant s \<and> add_inject now1 now2 s i = (s', True, msg) \<longrightarrow> inject_invariant s')
   \<and> (inject_invariant s0 \<longrightarrow> inject_invariant (add_injects s0 calls))
   \<and> (Scenario_init u now ttl ds ty cx org None cm md = Inr s1 \<longrightarrow>
        inject_invariant (add_injects s1 calls))
   \<and> (fst (generation_attempt e clock ty org fs cx g a) = Validated c v r \<longrightarrow>
        inject_invariant c)
   \<and> ((\<forall>k en. cache g k = Some en \<longrightarrow> inject_invariant (ce_scenario en))
        \<and> fst (generate_scenario e clock cfg g ty org fs rc) = Inr (c', r') \<longrightarrow>
      inject_invariant c'
        \<and> (\<forall>k en. cache (snd (generate_scenario e clock cfg g ty org fs rc)) k = Some en \<longrightarrow>
               inject_invariant (ce_scenario en)))"
proof (intro conjI impI)
  assume "inject_invariant s \<and> add_inject now1 now2 s i = (s', True, msg)"
  then show "inject_invariant s'" using add_inject_preserves_invariant by blast
next
  assume "inject_invariant s0"
  then show "inject_invariant (add_injects s0 calls)" by (rule add_injects_keep_invariant)
next
  assume "Scenario_init u now ttl ds ty cx org None cm md = Inr s1"
  then have "inject_invariant s1" by (rule Scenario_init_invariant)
  then show "inject_invariant (add_injects s1 calls)" by (rule add_injects_keep_invariant)
next
  assume "fst (generation_attempt e clock ty org fs cx g a) = Validated c v r"
  then show "inject_invariant c" by (rule attempt_candidate_invariant)
next
  assume h: "(\<forall>k en. cache g k = Some en \<longrightarrow> inject_invariant (ce_scenario en))
        \<and> fst (generate_scenario e clock cfg g ty org fs rc) = Inr (c', r')"
  then have inv: "\<forall>k en. cache g k = Some en \<longrightarrow> inject_invariant (ce_scenario en)"
    and ret: "fst (generate_scenario e clock cfg g ty org fs rc) = Inr (c', r')" by simp_all
  from generate_scenario_returns_invariant(1) [OF inv ret] show "inject_invariant c'" .
next
  assume h: "(\<forall>k en. cache g k = Some en \<longrightarrow> inject_invariant (ce_scenario en))
        \<and> fst (generate_scenario e clock cfg g ty org fs rc) = Inr (c', r')"
  then have inv: "\<forall>k en. cache g k = Some en \<longrightarrow> inject_invariant (ce_scenario en)"
    and ret: "fst (generate_scenario e clock cfg g ty org fs rc) = Inr (c', r')" by simp_all
  from generate_scenario_returns_invariant(2) [OF inv ret]
  show "\<forall>k en. cache (snd (generate_scenario e clock cfg g ty org fs rc)) k = Some en \<longrightarrow>
               inject_invariant (ce_scenario en)" .
qed

theorem add_inject_invariant_witness:
  "inject_invariant example_generated
   \<and> fst (snd (add_inject 1 2 example_generated (example_inject 1 10 [])))
   \<and> inject_invariant (fst (add_inject 1 2 example_generated (example_inject 1 10 [])))
   \<and> inject_invariant
       (add_injects example_generated
          [(1, 2, example_inject 1 10 []), (3, 4, example_inject 1 20 []),
           (5, 6, example_inject 2 100 [])])
   \<and> Scenario_init ''scenario'' 0 ''Ransomware Incident Response''
        ''Enterprise-wide ransomware incident response exercise'' ''security_incident'' 2
        example_context None \<lparr> cm_controls = None \<rparr>
        [(''ai_generated'', PyBool True), (''generation_timestamp'', PyIso 0),
         (''compliance_frameworks'', PyStrList [''soc2''])] = Inr example_generated
   \<and> outcome_verdict (fst (generation_attempt (mock_env (accept_from 0) example_records)
         (fixed_clock 0) ''security_incident'' example_context [''soc2''] 2 empty_generator 0))
      = Some (True, example_report True (96 / 100))
   \<and> map_option inject_invariant
       (outcome_candidate (fst (generation_attempt (mock_env (accept_from 0) example_records)
          (fixed_clock 0) ''security_incident'' example_context [''soc2''] 2
          empty_generator 0)))
      = Some True
   \<and> map_sum id (inject_invariant \<circ> fst)
       (fst (generate_scenario (mock_env (accept_from 0) example_records) (fixed_clock 0)
          default_config empty_generator ''security_incident'' example_context [''soc2'']
          (Some 2)))
      = Inr True"
proof -
  let ?i = "example_inject 1 10 []"
  let ?calls = "[(1, 2, example_inject 1 10 []), (3, 4, example_inject 1 20 []),
                 (5, 6, example_inject 2 100 [])]"
  let ?md = "[(''ai_generated'', PyBool True), (''generation_timestamp'', PyIso 0),
              (''compliance_frameworks'', PyStrList [''soc2''])]"
  let ?e = "mock_env (accept_from 0) example_records"
  let ?A = "generation_attempt ?e (fixed_clock 0) ''security_incident'' example_context
              [''soc2''] 2 empty_generator 0"
  let ?G = "generate_scenario ?e (fixed_clock 0) default_config
              empty_generator ''security_incident'' example_context [''soc2''] (Some 2)"
  let ?key = "generate_cache_key ?e ''security_incident'' example_context [''soc2''] 2"
  let ?rep = "example_report True (96 / 100)"
  have inv: "inject_invariant example_generated"
    by (simp add: example_generated_def example_scenario_def inject_invariant_def
          sequence_unique_def sequence_sorted_def timeline_fits_def)
  have ok: "fst (snd (add_inject 1 2 example_generated ?i))"
    by (simp add: add_inject_def example_generated_def example_scenario_def
          example_inject_def)
  then have eq: "add_inject 1 2 example_generated ?i
      = (fst (add_inject 1 2 example_generated ?i), True,
         snd (snd (add_inject 1 2 example_generated ?i)))"
    by (cases "add_inject 1 2 example_generated ?i") auto
  have init: "Scenario_init ''scenario'' 0 ''Ransomware Incident Response''
        ''Enterprise-wide ransomware incident response exercise'' ''security_incident'' 2
        example_context None \<lparr> cm_controls = None \<rparr> ?md = Inr example_generated"
    by (simp add: Scenario_init_def validate_scenario_type_field_def validate_complexity_def
          SCENARIO_TYPES_def SCENARIO_COMPLEXITY_LEVELS_def DEFAULT_DURATION_MINUTES_def
          example_generated_def example_scenario_def)
  have verdict: "outcome_verdict (fst ?A) = Some (True, ?rep)"
    by (simp add: generation_attempt_def mock_env_def example_records_def example_record_def
          example_content_def example_data_def
          Scenario_init_def validate_scenario_type_field_def
          validate_complexity_def SCENARIO_TYPES_def SCENARIO_COMPLEXITY_LEVELS_def
          DEFAULT_DURATION_MINUTES_def
          Inject_init_def validate_inject_type_def validate_content_def empty_generator_def
          fixed_clock_def accept_from_def add_inject_def str_int_1 Let_def)
  then obtain c where val: "fst ?A = Validated c True ?rep"
    by (cases "fst ?A") auto
  then have cand: "outcome_candidate (fst ?A) = Some c" by simp
  have gs: "?G = generation_loop ?e (fixed_clock 0) default_config ''security_incident''
                example_context [''soc2''] 2 ?key empty_generator 0"
    by (simp add: generate_scenario_def effective_complexity_def Let_def SCENARIO_TYPES_def
          get_cached_scenario_def empty_generator_def)
  have l0: "(0::int) < max_attempts default_config"
    by (simp add: default_config_def MAX_GENERATION_ATTEMPTS_def)
  have a1: "accepted default_config (True, ?rep)"
    by (simp add: accepted_def default_config_def example_report_def)
  note e1 = loop_step_accepted [OF l0 val a1, of ?key]
  have gen: "fst ?G = Inr (c, ?rep)" by (simp add: gs e1)
  have empty: "\<forall>k en. cache empty_generator k = Some en \<longrightarrow>
                 inject_invariant (ce_scenario en)"
    by (simp add: empty_generator_def)
  from add_inject_invariant
         [where s = example_generated and ?now1.0 = 1 and ?now2.0 = 2 and i = ?i
            and s' = "fst (add_inject 1 2 example_generated ?i)"
            and msg = "snd (snd (add_inject 1 2 example_generated ?i))"
            and ?s0.0 = example_generated and calls = ?calls
            and u = "''scenario''" and now = 0 and ttl = "''Ransomware Incident Response''"
            and ds = "''Enterprise-wide ransomware incident response exercise''"
            and ty = "''security_incident''" and cx = 2 and org = example_context
            and cm = "\<lparr> cm_controls = None \<rparr>" and md = ?md and ?s1.0 = example_generated
            and e = ?e and clock = "fixed_clock 0"
            and fs = "[''soc2'']" and g = empty_generator and a = 0
            and c = c and v = True and r = ?rep
            and cfg = default_config and rc = "Some 2" and c' = c and r' = ?rep]
       inv eq init val empty gen
  have "inject_invariant (fst (add_inject 1 2 example_generated ?i))
        \<and> inject_invariant (add_injects example_generated ?calls)
        \<and> inject_invariant c"
    by blast
  with inv ok init verdict cand gen show ?thesis by simp
qed

end
